theory Spec2Isabelle
  imports Complex_Main
begin

section \<open>Data model (types.ts, config.ts)\<close>

text \<open>
  JavaScript numbers are IEEE doubles. The model uses exact rationals for the
  MON-denominated quantities (\<open>targetMon\<close>, trade amounts, \<open>Math.random()\<close>) and
  integers for counts and millisecond values; \<open>bigint\<close> is \<open>int\<close>. A rational stands
  for the double nearest to it; sums, products and quotients are exact here and rounded
  in the code, so the two agree where every intermediate value is a whole number below
  \<open>2 ^ 53\<close>, as in every concrete evaluation below.
  A thrown JavaScript exception is a value \<open>Inl (Err msg)\<close> of a sum type.
\<close>

datatype Error = Err string

datatype WalletType = Funding | Volume | Recovery

record Wallet =
  address :: string
  privateKey :: string
  publicKey :: string
  index :: int
  wtype :: WalletType

record TokenConfig =
  name :: string
  symbol :: string
  description :: "string option"
  imageUrl :: "string option"

datatype Phase = Idle | PFunding | PBonding | PVolume | PRecovery | PCompleted

record BotState =
  phase :: Phase
  tokenAddress :: "string option"
  fundingWallets :: "Wallet list"
  volumeWallets :: "Wallet list"
  totalMonDeposited :: rat
  bondingCurveComplete :: bool
  volumeGenerated :: rat

record TransactionBundle =
  transactions :: "string list"
  signatures :: "string list"

datatype TradeType = Buy | Sell

record TradeOrder =
  order_wallet :: Wallet
  order_type :: TradeType
  amountMon :: rat
  order_tokenAddress :: string
  timestamp :: nat

record BondingCurveStatus =
  liquidity :: int
  threshold :: int
  isComplete :: bool

text \<open>The object \<open>config\<close> of config.ts, one field per leaf; \<open>parseInt\<close> results are
  integers of either sign (\<open>NaN\<close> is outside the model).\<close>

record Config =
  bundlerRpcUrl :: string
  targetMon :: rat
  walletCount :: int
  minWallets :: int
  maxWallets :: int
  volumeWalletCount :: int
  minTradeIntervalMs :: int
  maxTradeIntervalMs :: int
  tradeAmountMinMon :: rat
  tradeAmountMaxMon :: rat
  nadFun :: string
  recoveryWalletAddress :: string
  seed :: string

text \<open>The values config.ts takes when no environment variable is set.\<close>

definition defaultConfig :: Config where
  "defaultConfig = \<lparr> bundlerRpcUrl = '''', targetMon = 1296000, walletCount = 100,
     minWallets = 100, maxWallets = 150, volumeWalletCount = 50,
     minTradeIntervalMs = 5000, maxTradeIntervalMs = 30000,
     tradeAmountMinMon = 10, tradeAmountMaxMon = 100,
     nadFun = '''', recoveryWalletAddress = '''', seed = '''' \<rparr>"

section \<open>The outside world: chain gateway, clock, key derivation, file system\<close>

text \<open>
  A transaction request as the code builds it with \<open>populateTransaction\<close> or
  \<open>sendTransaction({to, value})\<close>: the contract method with its arguments (ABI
  encoding is not modelled). \<open>BuyToken token amount\<close> carries \<open>value = amount\<close>.
\<close>

datatype TxRequest =
    CreateToken string string string string
  | BuyToken string int
  | SellToken string int
  | Transfer string int

text \<open>What the program did to the outside, in order: every transaction it submitted
  (signer, request, whether it was confirmed), every bonding-curve status read with
  the clock value at which it was issued, and every delay the volume bot gave to
  \<open>setTimeout\<close>.\<close>

datatype Event =
    Submitted Wallet TxRequest bool
  | StatusPolled nat
  | TimerSet int

record World =
  clock :: nat
  trace :: "Event list"
  draws :: nat

record Log =
  log_address :: string

record Receipt =
  logs :: "Log list"

record HDNode =
  hd_address :: string
  hd_privateKey :: string
  hd_publicKey :: string

text \<open>
  The external collaborators, as oracles. Each answer may depend on the clock and on
  everything the program has done so far (the \<open>World\<close>). \<open>lag\<close> is the time a network
  call takes, and the time by which a timer fires late; time never runs backwards.
  \<open>txOutcome\<close> stands for \<open>signer.sendTransaction(tx)\<close> followed by \<open>wait()\<close>: the
  transaction hash on confirmation, or the exception either of them throws.
  \<open>random n\<close> is the value of the \<open>n\<close>-th call of \<open>Math.random()\<close>.
  \<open>fromPhrase phrase password path\<close> is \<open>ethers.HDNodeWallet.fromPhrase\<close> of ethers v6,
  whose parameters are the phrase, the BIP39 password and the derivation path, in this
  order. \<open>populateTransaction\<close> encodes a contract call; ethers resolves an address
  argument first and rejects a string that is neither an address nor a resolvable name,
  the empty string among them. \<open>parseRounded\<close> is what \<open>ethers.parseEther\<close> makes of
  the decimal string of a double that is not a whole number: the wei amount of the
  rounded value, or the exception for more than 18 fractional digits.
\<close>

record Env =
  generateMnemonic :: string
  fromPhrase :: "string \<Rightarrow> string \<Rightarrow> string \<Rightarrow> Error + HDNode"
  fsWrite :: "string \<Rightarrow> Error option"
  lag :: "World \<Rightarrow> nat"
  populateTransaction :: "Wallet \<Rightarrow> TxRequest \<Rightarrow> Error option"
  signTransaction :: "Wallet \<Rightarrow> TxRequest \<Rightarrow> Error + string"
  txOutcome :: "World \<Rightarrow> Wallet \<Rightarrow> TxRequest \<Rightarrow> Error + string"
  getTransactionReceipt :: "World \<Rightarrow> string \<Rightarrow> Error + Receipt option"
  curveStatus :: "World \<Rightarrow> string \<Rightarrow> Error + BondingCurveStatus"
  tokenPrice :: "World \<Rightarrow> string \<Rightarrow> Error + int"
  tokenBalance :: "World \<Rightarrow> string \<Rightarrow> string \<Rightarrow> Error + int"
  monBalance :: "World \<Rightarrow> string \<Rightarrow> Error + int"
  random :: "nat \<Rightarrow> rat"
  parseRounded :: "rat \<Rightarrow> Error + int"

definition isOk :: "'e + 'a \<Rightarrow> bool" where
  "isOk r = (case r of Inl _ \<Rightarrow> False | Inr _ \<Rightarrow> True)"

text \<open>A network round trip takes \<open>lag\<close>; \<open>setTimeout(resolve, ms)\<close> takes \<open>ms\<close> plus \<open>lag\<close>.\<close>

definition rpc :: "Env \<Rightarrow> World \<Rightarrow> World" where
  "rpc env w = w\<lparr>clock := clock w + lag env w\<rparr>"

definition sleep :: "Env \<Rightarrow> World \<Rightarrow> nat \<Rightarrow> World" where
  "sleep env w ms = w\<lparr>clock := clock w + ms + lag env w\<rparr>"

definition sendAndWait :: "Env \<Rightarrow> World \<Rightarrow> Wallet \<Rightarrow> TxRequest \<Rightarrow> World \<times> (Error + string)" where
  "sendAndWait env w signer tx =
     (let r = txOutcome env w signer tx
      in ((rpc env w)\<lparr>trace := trace w @ [Submitted signer tx (isOk r)]\<rparr>, r))"

text \<open>\<open>ethers.parseEther(x.toString())\<close> of a JavaScript number \<open>x\<close>. From \<open>1e21\<close> on
  \<open>toString\<close> gives exponent notation, which \<open>parseEther\<close> rejects. A whole number
  below \<open>2 ^ 53\<close> is a double and prints as its digits: the result is that many wei
  times \<open>10 ^ 18\<close>. For every other value the string printed depends on how the double
  was rounded, and the result is the oracle's.\<close>

definition parseEther :: "Env \<Rightarrow> rat \<Rightarrow> Error + int" where
  "parseEther env x =
     (if 10 ^ 21 \<le> \<bar>x\<bar> then Inl (Err ''invalid FixedNumber string value'')
      else if of_int \<lfloor>x\<rfloor> = x \<and> \<bar>x\<bar> < 2 ^ 53 then Inr (\<lfloor>x\<rfloor> * 10 ^ 18)
      else parseRounded env x)"

section \<open>WalletManager (utils/wallet.ts)\<close>

record WalletManager =
  wm_fundingWallets :: "Wallet list"
  wm_volumeWallets :: "Wallet list"
  seedPhrase :: string

text \<open>The template literal \<open>${i}\<close>: a non-negative integer in decimal.\<close>

fun decimal :: "nat \<Rightarrow> string" where
  "decimal n =
     (if n < 10 then [''0123456789'' ! n]
      else decimal (n div 10) @ [''0123456789'' ! (n mod 10)])"

declare decimal.simps [simp del]

text \<open>\<open>defaultPath\<close> of ethers v6, the value of the parameter \<open>path\<close> of
  \<open>HDNodeWallet.fromPhrase\<close> when the call does not give one.\<close>

definition defaultPath :: string where
  "defaultPath = ''m/44'/60'/0'/0/0''"

text \<open>The strings the two loops build as \<open>derivationPath\<close>.\<close>

definition fundingPath :: "nat \<Rightarrow> string" where
  "fundingPath i = ''m/44'/60'/0'/0/'' @ decimal i"

definition volumePath :: "nat \<Rightarrow> string" where
  "volumePath i = ''m/44'/60'/1'/0/'' @ decimal i"

text \<open>\<open>saveWalletInfo\<close>: \<open>mkdir\<close> of the category directory, then the two files of the
  wallet. Negative indices do not occur (the loops count up from 0).\<close>

definition saveWalletInfo :: "Env \<Rightarrow> Wallet \<Rightarrow> string \<Rightarrow> Error option" where
  "saveWalletInfo env wallet category =
     (let walletDir = ''wallets/'' @ category;
          stem = walletDir @ ''/wallet_'' @ decimal (nat (index wallet))
      in case fsWrite env walletDir of
           Some e \<Rightarrow> Some e
         | None \<Rightarrow>
             (case fsWrite env (stem @ ''.json'') of
                Some e \<Rightarrow> Some e
              | None \<Rightarrow> fsWrite env (stem @ ''.key'')))"

text \<open>The body of the loop \<open>for (let i = 0; i < count; i++)\<close> of
  \<open>generateFundingWallets\<close>, over the indices still to do. The call is
  \<open>fromPhrase(this.seedPhrase, derivationPath)\<close>: two arguments, so the string built as
  the derivation path is received as the password, and the path is the default one.
  \<open>generateVolumeWallets\<close> calls it the same way.\<close>

fun fundingLoop :: "Env \<Rightarrow> string \<Rightarrow> nat list \<Rightarrow> Wallet list \<Rightarrow> Error + Wallet list" where
  "fundingLoop env sd [] wallets = Inr wallets"
| "fundingLoop env sd (i # rest) wallets =
     (case fromPhrase env sd (fundingPath i) defaultPath of
        Inl e \<Rightarrow> Inl e
      | Inr hdNode \<Rightarrow>
          (let wallet = \<lparr> address = hd_address hdNode, privateKey = hd_privateKey hdNode,
                           publicKey = hd_publicKey hdNode, index = int i, wtype = Funding \<rparr>
           in case saveWalletInfo env wallet ''funding'' of
                Some e \<Rightarrow> Inl e
              | None \<Rightarrow> fundingLoop env sd rest (wallets @ [wallet])))"

definition generateFundingWallets ::
  "Env \<Rightarrow> WalletManager \<Rightarrow> int \<Rightarrow> WalletManager \<times> (Error + Wallet list)" where
  "generateFundingWallets env wm count =
     (case fundingLoop env (seedPhrase wm) [0..<nat count] [] of
        Inl e \<Rightarrow> (wm, Inl e)
      | Inr wallets \<Rightarrow> (wm\<lparr>wm_fundingWallets := wallets\<rparr>, Inr wallets))"

fun volumeLoop :: "Env \<Rightarrow> string \<Rightarrow> int \<Rightarrow> nat list \<Rightarrow> Wallet list \<Rightarrow> Error + Wallet list" where
  "volumeLoop env sd baseIndex [] wallets = Inr wallets"
| "volumeLoop env sd baseIndex (i # rest) wallets =
     (case fromPhrase env sd (volumePath i) defaultPath of
        Inl e \<Rightarrow> Inl e
      | Inr hdNode \<Rightarrow>
          (let wallet = \<lparr> address = hd_address hdNode, privateKey = hd_privateKey hdNode,
                           publicKey = hd_publicKey hdNode, index = baseIndex + int i,
                           wtype = Volume \<rparr>
           in case saveWalletInfo env wallet ''volume'' of
                Some e \<Rightarrow> Inl e
              | None \<Rightarrow> volumeLoop env sd baseIndex rest (wallets @ [wallet])))"

definition generateVolumeWallets ::
  "Env \<Rightarrow> WalletManager \<Rightarrow> int \<Rightarrow> WalletManager \<times> (Error + Wallet list)" where
  "generateVolumeWallets env wm count =
     (case volumeLoop env (seedPhrase wm) (int (length (wm_fundingWallets wm)))
             [0..<nat count] [] of
        Inl e \<Rightarrow> (wm, Inl e)
      | Inr wallets \<Rightarrow> (wm\<lparr>wm_volumeWallets := wallets\<rparr>, Inr wallets))"

text \<open>\<open>initialize\<close>: the configured seed, or a fresh mnemonic written to
  \<open>wallets/seed.txt\<close>.\<close>

definition wm_initialize :: "Env \<Rightarrow> Config \<Rightarrow> WalletManager \<Rightarrow> WalletManager \<times> (Error + unit)" where
  "wm_initialize env cfg wm =
     (case fsWrite env ''wallets'' of
        Some e \<Rightarrow> (wm, Inl e)
      | None \<Rightarrow>
          if seed cfg \<noteq> [] then (wm\<lparr>seedPhrase := seed cfg\<rparr>, Inr ())
          else
            (let wm' = wm\<lparr>seedPhrase := generateMnemonic env\<rparr>
             in case fsWrite env ''wallets/seed.txt'' of
                  Some e \<Rightarrow> (wm', Inl e)
                | None \<Rightarrow> (wm', Inr ())))"

definition getVolumeWallets :: "WalletManager \<Rightarrow> Wallet list" where
  "getVolumeWallets wm = wm_volumeWallets wm"

definition getAllWallets :: "WalletManager \<Rightarrow> Wallet list" where
  "getAllWallets wm = wm_fundingWallets wm @ wm_volumeWallets wm"

section \<open>NadFunContract (contracts/nadfun.ts)\<close>

text \<open>\<open>buyToken\<close> and \<open>sellToken\<close>: send, wait for the receipt, and return the constant
  \<open>BigInt(0)\<close> (the amount is not parsed from the receipt); an exception is rethrown.\<close>

definition buyToken :: "Env \<Rightarrow> World \<Rightarrow> Wallet \<Rightarrow> string \<Rightarrow> int \<Rightarrow> World \<times> (Error + int)" where
  "buyToken env w wallet tok amount =
     (case sendAndWait env w wallet (BuyToken tok amount) of
        (w', Inl e) \<Rightarrow> (w', Inl e)
      | (w', Inr receiptHash) \<Rightarrow> (let tokensReceived = 0 in (w', Inr tokensReceived)))"

definition sellToken :: "Env \<Rightarrow> World \<Rightarrow> Wallet \<Rightarrow> string \<Rightarrow> int \<Rightarrow> World \<times> (Error + int)" where
  "sellToken env w wallet tok amountTokens =
     (case sendAndWait env w wallet (SellToken tok amountTokens) of
        (w', Inl e) \<Rightarrow> (w', Inl e)
      | (w', Inr receiptHash) \<Rightarrow> (let monReceived = 0 in (w', Inr monReceived)))"

definition getBondingCurveStatus ::
  "Env \<Rightarrow> World \<Rightarrow> string \<Rightarrow> World \<times> (Error + BondingCurveStatus)" where
  "getBondingCurveStatus env w tok =
     ((rpc env w)\<lparr>trace := trace w @ [StatusPolled (clock w)]\<rparr>, curveStatus env w tok)"

definition getTokenPrice :: "Env \<Rightarrow> World \<Rightarrow> string \<Rightarrow> World \<times> (Error + int)" where
  "getTokenPrice env w tok = (rpc env w, tokenPrice env w tok)"

definition getTokenBalance :: "Env \<Rightarrow> World \<Rightarrow> string \<Rightarrow> string \<Rightarrow> World \<times> (Error + int)" where
  "getTokenBalance env w tok walletAddress = (rpc env w, tokenBalance env w tok walletAddress)"

definition getMonBalance :: "Env \<Rightarrow> World \<Rightarrow> string \<Rightarrow> World \<times> (Error + int)" where
  "getMonBalance env w walletAddress = (rpc env w, monBalance env w walletAddress)"

definition transferMon ::
  "Env \<Rightarrow> World \<Rightarrow> Wallet \<Rightarrow> string \<Rightarrow> int \<Rightarrow> World \<times> (Error + string)" where
  "transferMon env w fromWallet toAddress amount =
     sendAndWait env w fromWallet (Transfer toAddress amount)"

section \<open>TransactionBundler (bundler/transactionBundler.ts)\<close>

definition emptyBundle :: TransactionBundle where
  "emptyBundle = \<lparr> transactions = [], signatures = [] \<rparr>"

text \<open>\<open>x || ''\<close> on an optional string.\<close>

definition orEmpty :: "string option \<Rightarrow> string" where
  "orEmpty x = (case x of None \<Rightarrow> [] | Some s \<Rightarrow> s)"

text \<open>JavaScript truthiness of a \<open>string | null | undefined\<close>.\<close>

definition truthy :: "string option \<Rightarrow> bool" where
  "truthy x = (case x of None \<Rightarrow> False | Some s \<Rightarrow> s \<noteq> [])"

text \<open>\<open>extractTokenAddress\<close>: \<open>null\<close> for no receipt; otherwise the loop over
  \<open>receipt.logs\<close> has an empty body and the function returns \<open>null\<close> after it.\<close>

definition extractTokenAddress :: "Receipt option \<Rightarrow> string option" where
  "extractTokenAddress receipt =
     (case receipt of
        None \<Rightarrow> None
      | Some r \<Rightarrow> fold (\<lambda>log found. found) (logs r) None)"

text \<open>The loop of \<open>submitToBundler\<close>: sign, record the signed transaction, send, wait,
  record the hash.\<close>

fun submitLoop ::
  "Env \<Rightarrow> World \<Rightarrow> TxRequest list \<Rightarrow> Wallet \<Rightarrow> TransactionBundle
    \<Rightarrow> World \<times> (Error + TransactionBundle)" where
  "submitLoop env w [] signer b = (w, Inr b)"
| "submitLoop env w (tx # rest) signer b =
     (case signTransaction env signer tx of
        Inl e \<Rightarrow> (w, Inl e)
      | Inr signedTx \<Rightarrow>
          (case sendAndWait env w signer tx of
             (w', Inl e) \<Rightarrow> (w', Inl e)
           | (w', Inr h) \<Rightarrow>
               submitLoop env w' rest signer
                 \<lparr> transactions = transactions b @ [signedTx],
                   signatures = signatures b @ [h] \<rparr>))"

definition submitToBundler ::
  "Env \<Rightarrow> World \<Rightarrow> TxRequest list \<Rightarrow> Wallet \<Rightarrow> World \<times> (Error + TransactionBundle)" where
  "submitToBundler env w txs signer = submitLoop env w txs signer emptyBundle"

definition bundleTokenCreationAndBuy ::
  "Env \<Rightarrow> Config \<Rightarrow> World \<Rightarrow> Wallet \<Rightarrow> TokenConfig \<Rightarrow> int
    \<Rightarrow> World \<times> (Error + TransactionBundle)" where
  "bundleTokenCreationAndBuy env cfg w fundingWallet tokenConfig buyAmountMon =
     (let createTx = CreateToken (name tokenConfig) (symbol tokenConfig)
                       (orEmpty (description tokenConfig)) (orEmpty (imageUrl tokenConfig))
      in case populateTransaction env fundingWallet createTx of
           Some e \<Rightarrow> (w, Inl e)
         | None \<Rightarrow>
             if bundlerRpcUrl cfg \<noteq> [] then submitToBundler env w [createTx] fundingWallet
             else
               (case sendAndWait env w fundingWallet createTx of
                  (w1, Inl e) \<Rightarrow> (w1, Inl e)
                | (w1, Inr createHash) \<Rightarrow>
                    (case getTransactionReceipt env w1 createHash of
                       Inl e \<Rightarrow> (rpc env w1, Inl e)
                     | Inr receipt \<Rightarrow>
                         (let w2 = rpc env w1
                          in case extractTokenAddress receipt of
                               None \<Rightarrow> (w2, Inr emptyBundle)
                             | Some tokenAddr \<Rightarrow>
                                 if tokenAddr = [] then (w2, Inr emptyBundle)
                                 else
                                   (let buyTx = BuyToken tokenAddr buyAmountMon
                                    in case populateTransaction env fundingWallet buyTx of
                                         Some e \<Rightarrow> (w2, Inl e)
                                       | None \<Rightarrow>
                                           (case sendAndWait env w2 fundingWallet buyTx of
                                              (w3, Inl e) \<Rightarrow> (w3, Inl e)
                                            | (w3, Inr buyHash) \<Rightarrow>
                                                (w3, Inr
                                                  \<lparr> transactions = [createHash, buyHash],
                                                    signatures = [createHash, buyHash] \<rparr>)))))))"

text \<open>\<open>wallets.map(async (wallet, index) => ...populateTransaction(tokenAddress,
  amounts[index], ...))\<close> under \<open>Promise.all\<close>: one request per wallet, or the
  rejection. A missing \<open>amounts[index]\<close> is \<open>undefined\<close>, which the encoder rejects.\<close>

fun populateBuys :: "Env \<Rightarrow> string \<Rightarrow> Wallet list \<Rightarrow> int list \<Rightarrow> Error + TxRequest list" where
  "populateBuys env tok [] amounts = Inr []"
| "populateBuys env tok (wallet # ws) [] = Inl (Err ''invalid BigNumberish value'')"
| "populateBuys env tok (wallet # ws) (a # as) =
     (case populateTransaction env wallet (BuyToken tok a) of
        Some e \<Rightarrow> Inl e
      | None \<Rightarrow>
          (case populateBuys env tok ws as of
             Inl e \<Rightarrow> Inl e
           | Inr txs \<Rightarrow> Inr (BuyToken tok a # txs)))"

text \<open>The sequential branch of \<open>bundleMultipleBuys\<close>: send, wait, push the hash twice,
  sleep 100 ms; an exception leaves the loop and the function.\<close>

fun sequentialBuys ::
  "Env \<Rightarrow> World \<Rightarrow> (Wallet \<times> TxRequest) list \<Rightarrow> TransactionBundle
    \<Rightarrow> World \<times> (Error + TransactionBundle)" where
  "sequentialBuys env w [] b = (w, Inr b)"
| "sequentialBuys env w ((wallet, tx) # rest) b =
     (case sendAndWait env w wallet tx of
        (w1, Inl e) \<Rightarrow> (w1, Inl e)
      | (w1, Inr h) \<Rightarrow>
          sequentialBuys env (sleep env w1 100) rest
            \<lparr> transactions = transactions b @ [h], signatures = signatures b @ [h] \<rparr>)"

definition bundleMultipleBuys ::
  "Env \<Rightarrow> Config \<Rightarrow> World \<Rightarrow> Wallet list \<Rightarrow> string \<Rightarrow> int list
    \<Rightarrow> World \<times> (Error + TransactionBundle)" where
  "bundleMultipleBuys env cfg w wallets tok amounts =
     (case populateBuys env tok wallets amounts of
        Inl e \<Rightarrow> (w, Inl e)
      | Inr txs \<Rightarrow>
          if bundlerRpcUrl cfg \<noteq> [] then
            (case wallets of
               [] \<Rightarrow> (w, Inl (Err ''TypeError: cannot read properties of undefined''))
             | first # _ \<Rightarrow> submitToBundler env w txs first)
          else sequentialBuys env w (zip wallets txs) emptyBundle)"

section \<open>VolumeBot (bot/volumeBot.ts)\<close>

text \<open>\<open>tradeInterval\<close> is the pending timer: its delay and the \<open>wallets\<close> its callback
  closes over; \<open>None\<close> when no timer is pending.\<close>

record VolumeBot =
  vb_tokenAddress :: string
  isRunning :: bool
  tradeInterval :: "(int \<times> Wallet list) option"
  tradeHistory :: "TradeOrder list"

definition newVolumeBot :: "string \<Rightarrow> VolumeBot" where
  "newVolumeBot tok =
     \<lparr> vb_tokenAddress = tok, isRunning = False, tradeInterval = None, tradeHistory = [] \<rparr>"

definition mathRandom :: "Env \<Rightarrow> World \<Rightarrow> World \<times> rat" where
  "mathRandom env w = (w\<lparr>draws := draws w + 1\<rparr>, random env (draws w))"

definition getRandomInterval :: "Env \<Rightarrow> Config \<Rightarrow> World \<Rightarrow> World \<times> int" where
  "getRandomInterval env cfg w =
     (let mn = minTradeIntervalMs cfg; mx = maxTradeIntervalMs cfg;
          (w', r) = mathRandom env w
      in (w', \<lfloor>r * of_int (mx - mn + 1)\<rfloor> + mn))"

definition getRandomTradeAmount :: "Env \<Rightarrow> Config \<Rightarrow> World \<Rightarrow> World \<times> rat" where
  "getRandomTradeAmount env cfg w =
     (let mn = tradeAmountMinMon cfg; mx = tradeAmountMaxMon cfg;
          (w', r) = mathRandom env w
      in (w', r * (mx - mn) + mn))"

text \<open>\<open>wallets[Math.floor(Math.random() * wallets.length)]\<close>; an index outside the
  array reads \<open>undefined\<close>.\<close>

definition getRandomWallet :: "Env \<Rightarrow> World \<Rightarrow> Wallet list \<Rightarrow> World \<times> Wallet option" where
  "getRandomWallet env w wallets =
     (let (w', r) = mathRandom env w;
          i = \<lfloor>r * of_nat (length wallets)\<rfloor>
      in (w', if 0 \<le> i \<and> i < int (length wallets) then Some (wallets ! nat i) else None))"

definition executeBuy ::
  "Env \<Rightarrow> World \<Rightarrow> VolumeBot \<Rightarrow> Wallet \<Rightarrow> rat \<Rightarrow> World \<times> VolumeBot \<times> (Error + unit)" where
  "executeBuy env w vb wallet amount =
     (case parseEther env amount of
        Inl e \<Rightarrow> (w, vb, Inl e)
      | Inr amountMonBigInt \<Rightarrow>
          (case getMonBalance env w (address wallet) of
             (w1, Inl e) \<Rightarrow> (w1, vb, Inl e)
           | (w1, Inr balance) \<Rightarrow>
               if balance < amountMonBigInt then (w1, vb, Inr ())
               else
                 (case buyToken env w1 wallet (vb_tokenAddress vb) amountMonBigInt of
                    (w2, Inl e) \<Rightarrow> (w2, vb, Inl e)
                  | (w2, Inr _) \<Rightarrow>
                      (let order = \<lparr> order_wallet = wallet, order_type = Buy,
                                      amountMon = amount,
                                      order_tokenAddress = vb_tokenAddress vb,
                                      timestamp = clock w2 \<rparr>
                       in (w2, vb\<lparr>tradeHistory := tradeHistory vb @ [order]\<rparr>, Inr ())))))"

text \<open>\<open>bigint\<close> division truncates towards zero and throws a \<open>RangeError\<close> on a zero
  divisor.\<close>

definition bigintDiv :: "int \<Rightarrow> int \<Rightarrow> Error + int" where
  "bigintDiv a b =
     (if b = 0 then Inl (Err ''RangeError: Division by zero'')
      else Inr (sgn a * sgn b * (\<bar>a\<bar> div \<bar>b\<bar>)))"

definition executeSell ::
  "Env \<Rightarrow> World \<Rightarrow> VolumeBot \<Rightarrow> Wallet \<Rightarrow> rat \<Rightarrow> World \<times> VolumeBot \<times> (Error + unit)" where
  "executeSell env w vb wallet amount =
     (case getTokenBalance env w (vb_tokenAddress vb) (address wallet) of
        (w1, Inl e) \<Rightarrow> (w1, vb, Inl e)
      | (w1, Inr tokenBal) \<Rightarrow>
          if tokenBal = 0 then (w1, vb, Inr ())
          else
            (case getTokenPrice env w1 (vb_tokenAddress vb) of
               (w2, Inl e) \<Rightarrow> (w2, vb, Inl e)
             | (w2, Inr price) \<Rightarrow>
                 (case parseEther env amount of
                    Inl e \<Rightarrow> (w2, vb, Inl e)
                  | Inr amountMonBigInt \<Rightarrow>
                      (case bigintDiv (amountMonBigInt * 10 ^ 18) price of
                         Inl e \<Rightarrow> (w2, vb, Inl e)
                       | Inr tokensToSell \<Rightarrow>
                           (case sellToken env w2 wallet (vb_tokenAddress vb)
                                   (if tokensToSell > tokenBal then tokenBal else tokensToSell) of
                              (w3, Inl e) \<Rightarrow> (w3, vb, Inl e)
                            | (w3, Inr _) \<Rightarrow>
                                (let order = \<lparr> order_wallet = wallet, order_type = Sell,
                                                amountMon = amount,
                                                order_tokenAddress = vb_tokenAddress vb,
                                                timestamp = clock w3 \<rparr>
                                 in (w3, vb\<lparr>tradeHistory := tradeHistory vb @ [order]\<rparr>,
                                     Inr ())))))))"

text \<open>\<open>executeRandomTrade\<close>: three draws (wallet, direction, amount), then the trade
  inside \<open>try/catch\<close>: whatever it throws is logged and dropped. An \<open>undefined\<close> wallet
  throws a \<open>TypeError\<close> at the first \<open>wallet.address\<close>, inside the \<open>try\<close>.\<close>

definition executeRandomTrade ::
  "Env \<Rightarrow> Config \<Rightarrow> World \<Rightarrow> VolumeBot \<Rightarrow> Wallet list \<Rightarrow> World \<times> VolumeBot" where
  "executeRandomTrade env cfg w vb wallets =
     (let (w1, wallet) = getRandomWallet env w wallets;
          (w2, r) = mathRandom env w1;
          tradeType = (if r > 1 / 2 then Buy else Sell);
          (w3, amount) = getRandomTradeAmount env cfg w2
      in case wallet of
           None \<Rightarrow> (w3, vb)
         | Some wal \<Rightarrow>
             (case (case tradeType of
                      Buy \<Rightarrow> executeBuy env w3 vb wal amount
                    | Sell \<Rightarrow> executeSell env w3 vb wal amount) of
                (w4, vb', _) \<Rightarrow> (w4, vb')))"

definition scheduleNextTrade ::
  "Env \<Rightarrow> Config \<Rightarrow> World \<Rightarrow> VolumeBot \<Rightarrow> Wallet list \<Rightarrow> World \<times> VolumeBot" where
  "scheduleNextTrade env cfg w vb wallets =
     (if \<not> isRunning vb then (w, vb)
      else
        (let (w1, interval) = getRandomInterval env cfg w
         in (w1\<lparr>trace := trace w1 @ [TimerSet interval]\<rparr>,
             vb\<lparr>tradeInterval := Some (interval, wallets)\<rparr>)))"

text \<open>The callback given to \<open>setTimeout\<close>: one trade, then the next timer.\<close>

definition timerCallback ::
  "Env \<Rightarrow> Config \<Rightarrow> World \<Rightarrow> VolumeBot \<Rightarrow> Wallet list \<Rightarrow> World \<times> VolumeBot" where
  "timerCallback env cfg w vb wallets =
     (case executeRandomTrade env cfg w vb wallets of
        (w1, vb1) \<Rightarrow> scheduleNextTrade env cfg w1 vb1 wallets)"

text \<open>The event loop firing the pending timer \<open>n\<close> times (fewer if none is pending).\<close>

fun runTicks :: "nat \<Rightarrow> Env \<Rightarrow> Config \<Rightarrow> World \<Rightarrow> VolumeBot \<Rightarrow> World \<times> VolumeBot" where
  "runTicks 0 env cfg w vb = (w, vb)"
| "runTicks (Suc n) env cfg w vb =
     (case tradeInterval vb of
        None \<Rightarrow> (w, vb)
      | Some (interval, wallets) \<Rightarrow>
          (case timerCallback env cfg (sleep env w (nat interval))
                  (vb\<lparr>tradeInterval := None\<rparr>) wallets of
             (w1, vb1) \<Rightarrow> runTicks n env cfg w1 vb1))"

definition vb_start ::
  "Env \<Rightarrow> Config \<Rightarrow> World \<Rightarrow> WalletManager \<Rightarrow> VolumeBot \<Rightarrow> World \<times> VolumeBot \<times> (Error + unit)" where
  "vb_start env cfg w wm vb =
     (if isRunning vb then (w, vb, Inr ())
      else
        (let wallets = getVolumeWallets wm
         in if wallets = [] then (w, vb, Inl (Err ''No volume wallets available''))
            else
              (case scheduleNextTrade env cfg w (vb\<lparr>isRunning := True\<rparr>) wallets of
                 (w1, vb1) \<Rightarrow> (w1, vb1, Inr ()))))"

definition vb_stop :: "VolumeBot \<Rightarrow> VolumeBot" where
  "vb_stop vb = vb\<lparr>isRunning := False, tradeInterval := None\<rparr>"

section \<open>RecoveryManager (bot/recovery.ts)\<close>

record RecoveryResult =
  totalMonRecovered :: int
  walletsProcessed :: nat

text \<open>\<open>ethers.parseEther('0.001')\<close>.\<close>

definition gasReserve :: int where
  "gasReserve = 10 ^ 15"

text \<open>Step 1 of \<open>recoverFromWallet\<close>, after the token balance has been read: sell the
  whole balance if there is one. The \<open>try/catch\<close> around the sale logs what it throws
  and goes on, the running total unchanged.\<close>

definition sellAllTokens :: "Env \<Rightarrow> World \<Rightarrow> string \<Rightarrow> Wallet \<Rightarrow> int \<Rightarrow> World \<times> int" where
  "sellAllTokens env w tok wallet tokenBal =
     (if tokenBal > 0 then
        (case sellToken env w wallet tok tokenBal of
           (w', Inl e) \<Rightarrow> (w', 0)
         | (w', Inr monReceived) \<Rightarrow> (w', 0 + monReceived))
      else (w, 0))"

text \<open>Step 2, after the MON balance has been read: keep the gas reserve and transfer
  the rest, again inside a \<open>try/catch\<close> that logs and goes on.\<close>

definition transferAllMon ::
  "Env \<Rightarrow> World \<Rightarrow> string \<Rightarrow> Wallet \<Rightarrow> int \<Rightarrow> int \<Rightarrow> World \<times> int" where
  "transferAllMon env w recoveryAddress wallet monBal totalRecovered =
     (if monBal > 0 then
        (let transferAmount = (if monBal > gasReserve then monBal - gasReserve else 0)
         in if transferAmount > 0 then
              (case transferMon env w wallet recoveryAddress transferAmount of
                 (w', Inl e) \<Rightarrow> (w', totalRecovered)
               | (w', Inr _) \<Rightarrow> (w', totalRecovered + transferAmount))
            else (w, totalRecovered))
      else (w, totalRecovered))"

text \<open>\<open>recoverFromWallet\<close>: the two balance reads are outside any \<open>try\<close>, so what they
  throw leaves the function; the two steps never throw.\<close>

definition recoverFromWallet ::
  "Env \<Rightarrow> World \<Rightarrow> string \<Rightarrow> string \<Rightarrow> Wallet \<Rightarrow> World \<times> (Error + int)" where
  "recoverFromWallet env w recoveryAddress tok wallet =
     (case getTokenBalance env w tok (address wallet) of
        (w1, Inl e) \<Rightarrow> (w1, Inl e)
      | (w1, Inr tokenBal) \<Rightarrow>
          (case sellAllTokens env w1 tok wallet tokenBal of
             (w2, totalRecovered) \<Rightarrow>
               (case getMonBalance env w2 (address wallet) of
                  (w3, Inl e) \<Rightarrow> (w3, Inl e)
                | (w3, Inr monBal) \<Rightarrow>
                    (case transferAllMon env w3 recoveryAddress wallet monBal totalRecovered of
                       (w4, totalRecovered') \<Rightarrow> (w4, Inr totalRecovered')))))"

text \<open>The loop of \<open>executeRecovery\<close>: a wallet whose \<open>recoverFromWallet\<close> throws is
  logged and skipped (no count, no delay); the others add to the total and the count,
  followed by a delay of one second.\<close>

fun recoveryLoop ::
  "Env \<Rightarrow> World \<Rightarrow> string \<Rightarrow> string \<Rightarrow> Wallet list \<Rightarrow> int \<Rightarrow> nat \<Rightarrow> World \<times> RecoveryResult" where
  "recoveryLoop env w recoveryAddress tok [] sofar processed =
     (w, \<lparr> totalMonRecovered = sofar, walletsProcessed = processed \<rparr>)"
| "recoveryLoop env w recoveryAddress tok (wallet # rest) sofar processed =
     (case recoverFromWallet env w recoveryAddress tok wallet of
        (w1, Inr recovered) \<Rightarrow>
          recoveryLoop env (sleep env w1 1000) recoveryAddress tok rest
            (sofar + recovered) (processed + 1)
      | (w1, Inl e) \<Rightarrow> recoveryLoop env w1 recoveryAddress tok rest sofar processed)"

definition executeRecovery ::
  "Env \<Rightarrow> World \<Rightarrow> WalletManager \<Rightarrow> string \<Rightarrow> string \<Rightarrow> World \<times> RecoveryResult" where
  "executeRecovery env w wm recoveryAddress tok =
     recoveryLoop env w recoveryAddress tok (getAllWallets wm) 0 0"

section \<open>BotOrchestrator (bot/orchestrator.ts)\<close>

record Orchestrator =
  walletManager :: WalletManager
  state :: BotState
  volumeBot :: "VolumeBot option"

text \<open>The constructor. \<open>new NadFunContract()\<close> throws without a contract address.\<close>

definition newOrchestrator :: "Config \<Rightarrow> Error + Orchestrator" where
  "newOrchestrator cfg =
     (if nadFun cfg = [] then Inl (Err ''NAD_FUN_CONTRACT_ADDRESS not configured'')
      else Inr \<lparr> walletManager =
                   \<lparr> wm_fundingWallets = [], wm_volumeWallets = [], seedPhrase = [] \<rparr>,
                 state = \<lparr> phase = Idle, tokenAddress = None, fundingWallets = [],
                           volumeWallets = [], totalMonDeposited = 0,
                           bondingCurveComplete = False, volumeGenerated = 0 \<rparr>,
                 volumeBot = None \<rparr>)"

definition initialize :: "Env \<Rightarrow> Config \<Rightarrow> Orchestrator \<Rightarrow> Orchestrator \<times> (Error + unit)" where
  "initialize env cfg orch =
     (case wm_initialize env cfg (walletManager orch) of
        (wm, r) \<Rightarrow> (orch\<lparr>walletManager := wm\<rparr>, r))"

definition phase1_GenerateFundingWallets ::
  "Env \<Rightarrow> Config \<Rightarrow> Orchestrator \<Rightarrow> Orchestrator \<times> (Error + unit)" where
  "phase1_GenerateFundingWallets env cfg orch =
     (let orch1 = orch\<lparr>state := (state orch)\<lparr>phase := PFunding\<rparr>\<rparr>
      in case generateFundingWallets env (walletManager orch1) (walletCount cfg) of
           (wm, Inl e) \<Rightarrow> (orch1\<lparr>walletManager := wm\<rparr>, Inl e)
         | (wm, Inr wallets) \<Rightarrow>
             (orch1\<lparr>walletManager := wm,
                    state := (state orch1)\<lparr>fundingWallets := wallets\<rparr>\<rparr>, Inr ()))"

text \<open>The two amounts phase 2 computes, as JavaScript numbers (MON). Both are used
  only where the divisor is positive: with no funding wallet
  \<open>parseEther(monPerWallet.toString())\<close> throws on \<open>Infinity\<close> or \<open>NaN\<close>, and with no
  remaining wallet the \<open>map\<close> never evaluates the quotient.\<close>

definition monPerWallet :: "Config \<Rightarrow> Wallet list \<Rightarrow> rat" where
  "monPerWallet cfg wallets = targetMon cfg / of_nat (length wallets)"

definition amountPerRemainingWallet :: "Config \<Rightarrow> Wallet list \<Rightarrow> rat" where
  "amountPerRemainingWallet cfg wallets =
     (let remainingWallets = tl wallets;
          remainingAmount = targetMon cfg - monPerWallet cfg wallets
      in remainingAmount / of_nat (length remainingWallets))"

text \<open>\<open>remainingWallets.map(() => ethers.parseEther(...))\<close>: one amount per wallet, or
  the exception of the first call.\<close>

definition buyAmounts :: "Env \<Rightarrow> Config \<Rightarrow> Wallet list \<Rightarrow> Error + int list" where
  "buyAmounts env cfg wallets =
     (let remainingWallets = tl wallets
      in if remainingWallets = [] then Inr []
         else
           (case parseEther env (amountPerRemainingWallet cfg wallets) of
              Inl e \<Rightarrow> Inl e
            | Inr a \<Rightarrow> Inr (map (\<lambda>_. a) remainingWallets)))"

definition phase2_FundBondingCurve ::
  "Env \<Rightarrow> Config \<Rightarrow> World \<Rightarrow> Orchestrator \<Rightarrow> TokenConfig
    \<Rightarrow> World \<times> Orchestrator \<times> (Error + unit)" where
  "phase2_FundBondingCurve env cfg w orch tokenConfig =
     (let orch1 = orch\<lparr>state := (state orch)\<lparr>phase := PBonding\<rparr>\<rparr>;
          wallets = fundingWallets (state orch1)
      in case wallets of
           [] \<Rightarrow> (w, orch1, Inl (Err ''invalid FixedNumber string value''))
         | firstWallet # remainingWallets \<Rightarrow>
             (case parseEther env (monPerWallet cfg wallets) of
                Inl e \<Rightarrow> (w, orch1, Inl e)
              | Inr firstBuyAmount \<Rightarrow>
                  (case bundleTokenCreationAndBuy env cfg w firstWallet tokenConfig
                          firstBuyAmount of
                     (w1, Inl e) \<Rightarrow> (w1, orch1, Inl e)
                   | (w1, Inr _) \<Rightarrow>
                       (let tokenAddr = [];
                            orch2 = orch1\<lparr>state := (state orch1)\<lparr>tokenAddress := Some tokenAddr\<rparr>\<rparr>
                        in case buyAmounts env cfg wallets of
                             Inl e \<Rightarrow> (w1, orch2, Inl e)
                           | Inr amounts \<Rightarrow>
                               (case bundleMultipleBuys env cfg w1 remainingWallets tokenAddr
                                       amounts of
                                  (w2, Inl e) \<Rightarrow> (w2, orch2, Inl e)
                                | (w2, Inr _) \<Rightarrow>
                                    (w2,
                                     orch2\<lparr>state :=
                                       (state orch2)\<lparr>totalMonDeposited := targetMon cfg\<rparr>\<rparr>,
                                     Inr ()))))))"

definition pollInterval :: nat where
  "pollInterval = 30000"

definition maxWaitTime :: nat where
  "maxWaitTime = 3600000"

text \<open>The \<open>while\<close> loop of phase 3, with \<open>Date.now()\<close> read from the clock.\<close>

function pollLoop ::
  "Env \<Rightarrow> World \<Rightarrow> nat \<Rightarrow> string \<Rightarrow> BotState \<Rightarrow> World \<times> BotState \<times> (Error + unit)" where
  "pollLoop env w startTime tok st =
     (if clock w - startTime < maxWaitTime then
        (case getBondingCurveStatus env w tok of
           (w1, Inl e) \<Rightarrow> (w1, st, Inl e)
         | (w1, Inr status) \<Rightarrow>
             if isComplete status then (w1, st\<lparr>bondingCurveComplete := True\<rparr>, Inr ())
             else pollLoop env (sleep env w1 pollInterval) startTime tok st)
      else (w, st, Inl (Err ''Bonding curve did not complete within timeout'')))"
  by pat_completeness auto

termination
  by (relation "measure (\<lambda>(env, w, startTime, tok, st). startTime + maxWaitTime - clock w)")
     (auto simp: getBondingCurveStatus_def sleep_def rpc_def pollInterval_def)

declare pollLoop.simps [simp del]

definition phase3_WaitForBondingCurve ::
  "Env \<Rightarrow> World \<Rightarrow> Orchestrator \<Rightarrow> World \<times> Orchestrator \<times> (Error + unit)" where
  "phase3_WaitForBondingCurve env w orch =
     (case tokenAddress (state orch) of
        None \<Rightarrow> (w, orch, Inl (Err ''Token address not set''))
      | Some tok \<Rightarrow>
          if tok = [] then (w, orch, Inl (Err ''Token address not set''))
          else
            (case pollLoop env w (clock w) tok (state orch) of
               (w', st', r) \<Rightarrow> (w', orch\<lparr>state := st'\<rparr>, r)))"

text \<open>\<open>fundVolumeWallets\<close>: the funding wallet for the \<open>i\<close>-th volume wallet is
  \<open>fundingWallets[i % fundingWallets.length]\<close> of the first ten; with no funding wallet
  that is \<open>undefined\<close>, and \<open>transferMon\<close> throws a \<open>TypeError\<close> on its address.\<close>

fun fundVolumeLoop ::
  "Env \<Rightarrow> World \<Rightarrow> Wallet list \<Rightarrow> rat \<Rightarrow> nat \<Rightarrow> Wallet list \<Rightarrow> World \<times> (Error + unit)" where
  "fundVolumeLoop env w payers perWallet i [] = (w, Inr ())"
| "fundVolumeLoop env w payers perWallet i (volumeWallet # rest) =
     (case parseEther env perWallet of
        Inl e \<Rightarrow> (w, Inl e)
      | Inr amount \<Rightarrow>
          if payers = [] then (w, Inl (Err ''TypeError: cannot read properties of undefined''))
          else
            (case transferMon env w (payers ! (i mod length payers)) (address volumeWallet)
                    amount of
               (w1, Inl e) \<Rightarrow> (w1, Inl e)
             | (w1, Inr _) \<Rightarrow> fundVolumeLoop env (sleep env w1 500) payers perWallet (i + 1) rest))"

definition fundVolumeWallets ::
  "Env \<Rightarrow> Config \<Rightarrow> World \<Rightarrow> BotState \<Rightarrow> Wallet list \<Rightarrow> World \<times> (Error + unit)" where
  "fundVolumeWallets env cfg w st wallets =
     (let avgTradeAmount = (tradeAmountMinMon cfg + tradeAmountMaxMon cfg) / 2;
          perWallet = avgTradeAmount * 10;
          payers = take (min 10 (length (fundingWallets st))) (fundingWallets st)
      in fundVolumeLoop env w payers perWallet 0 wallets)"

definition phase4_StartVolumeGeneration ::
  "Env \<Rightarrow> Config \<Rightarrow> World \<Rightarrow> Orchestrator \<Rightarrow> World \<times> Orchestrator \<times> (Error + unit)" where
  "phase4_StartVolumeGeneration env cfg w orch =
     (let orch1 = orch\<lparr>state := (state orch)\<lparr>phase := PVolume\<rparr>\<rparr>
      in case generateVolumeWallets env (walletManager orch1) (volumeWalletCount cfg) of
           (wm, Inl e) \<Rightarrow> (w, orch1\<lparr>walletManager := wm\<rparr>, Inl e)
         | (wm, Inr wallets) \<Rightarrow>
             (let orch2 = orch1\<lparr>walletManager := wm,
                                state := (state orch1)\<lparr>volumeWallets := wallets\<rparr>\<rparr>
              in case fundVolumeWallets env cfg w (state orch2) wallets of
                   (w1, Inl e) \<Rightarrow> (w1, orch2, Inl e)
                 | (w1, Inr _) \<Rightarrow>
                     if \<not> truthy (tokenAddress (state orch2))
                     then (w1, orch2, Inl (Err ''Token address not set''))
                     else
                       (case vb_start env cfg w1 (walletManager orch2)
                               (newVolumeBot (orEmpty (tokenAddress (state orch2)))) of
                          (w2, vb, r) \<Rightarrow> (w2, orch2\<lparr>volumeBot := Some vb\<rparr>, r))))"

text \<open>\<open>execute\<close>: the four phases in order; the \<open>catch\<close> logs and rethrows, so the
  first exception ends the run.\<close>

definition execute ::
  "Env \<Rightarrow> Config \<Rightarrow> World \<Rightarrow> Orchestrator \<Rightarrow> TokenConfig \<Rightarrow> World \<times> Orchestrator \<times> (Error + unit)" where
  "execute env cfg w orch tokenConfig =
     (case phase1_GenerateFundingWallets env cfg orch of
        (orch1, Inl e) \<Rightarrow> (w, orch1, Inl e)
      | (orch1, Inr _) \<Rightarrow>
          (case phase2_FundBondingCurve env cfg w orch1 tokenConfig of
             (w2, orch2, Inl e) \<Rightarrow> (w2, orch2, Inl e)
           | (w2, orch2, Inr _) \<Rightarrow>
               (case phase3_WaitForBondingCurve env w2 orch2 of
                  (w3, orch3, Inl e) \<Rightarrow> (w3, orch3, Inl e)
                | (w3, orch3, Inr _) \<Rightarrow> phase4_StartVolumeGeneration env cfg w3 orch3)))"

definition triggerRecovery ::
  "Env \<Rightarrow> Config \<Rightarrow> World \<Rightarrow> Orchestrator \<Rightarrow> World \<times> Orchestrator \<times> (Error + unit)" where
  "triggerRecovery env cfg w orch =
     (let orch1 = orch\<lparr>state := (state orch)\<lparr>phase := PRecovery\<rparr>\<rparr>
      in if \<not> truthy (tokenAddress (state orch1))
         then (w, orch1, Inl (Err ''Token address not set''))
         else
           (let orch2 = orch1\<lparr>volumeBot := map_option vb_stop (volumeBot orch1)\<rparr>
            in if recoveryWalletAddress cfg = []
               then (w, orch2, Inl (Err ''Recovery wallet address not configured''))
               else
                 (case executeRecovery env w (walletManager orch2) (recoveryWalletAddress cfg)
                         (orEmpty (tokenAddress (state orch2))) of
                    (w1, result) \<Rightarrow>
                      (w1, orch2\<lparr>state := (state orch2)\<lparr>phase := PCompleted\<rparr>\<rparr>, Inr ()))))"

section \<open>Object identity: \<open>getState\<close> on the JavaScript heap\<close>

text \<open>
  The definitions above pass lists by value, which is what the code does wherever no
  two owners write to the same array. \<open>getState\<close> is where sharing matters, so it is
  modelled on an explicit store: a \<open>BotState\<close> object holds its two wallet lists as
  references to array objects, and \<open>{ ...this.state }\<close> allocates a new object with the
  same own properties, that is, the same references.
\<close>

type_synonym ref = nat

record StateObject =
  o_phase :: Phase
  o_tokenAddress :: "string option"
  o_fundingWallets :: ref
  o_volumeWallets :: ref
  o_totalMonDeposited :: rat
  o_bondingCurveComplete :: bool
  o_volumeGenerated :: rat

record Heap =
  objects :: "ref \<Rightarrow> StateObject option"
  arrays :: "ref \<Rightarrow> Wallet list option"
  nextRef :: ref

definition emptyHeap :: Heap where
  "emptyHeap = \<lparr> objects = (\<lambda>_. None), arrays = (\<lambda>_. None), nextRef = 0 \<rparr>"

definition allocArray :: "Heap \<Rightarrow> Wallet list \<Rightarrow> Heap \<times> ref" where
  "allocArray h xs =
     (h\<lparr>arrays := (arrays h)(nextRef h := Some xs), nextRef := nextRef h + 1\<rparr>, nextRef h)"

definition allocObject :: "Heap \<Rightarrow> StateObject \<Rightarrow> Heap \<times> ref" where
  "allocObject h obj =
     (h\<lparr>objects := (objects h)(nextRef h := Some obj), nextRef := nextRef h + 1\<rparr>, nextRef h)"

text \<open>The constructor's \<open>this.state = { phase: 'idle', fundingWallets: [], ... }\<close>.\<close>

definition heap_newState :: "Heap \<Rightarrow> Heap \<times> ref" where
  "heap_newState h =
     (let (h1, fw) = allocArray h [];
          (h2, vw) = allocArray h1 []
      in allocObject h2
           \<lparr> o_phase = Idle, o_tokenAddress = None, o_fundingWallets = fw,
             o_volumeWallets = vw, o_totalMonDeposited = 0,
             o_bondingCurveComplete = False, o_volumeGenerated = 0 \<rparr>)"

text \<open>\<open>getState() { return { ...this.state }; }\<close>, with \<open>this.state\<close> at \<open>thisState\<close>.\<close>

definition heap_getState :: "Heap \<Rightarrow> ref \<Rightarrow> (Heap \<times> ref) option" where
  "heap_getState h thisState =
     (case objects h thisState of
        None \<Rightarrow> None
      | Some obj \<Rightarrow> Some (allocObject h obj))"

text \<open>What a holder of a reference can do: assign a property of the object
  (\<open>s.phase = v\<close>, \<open>s.fundingWallets = newArray\<close>), or mutate an array in place
  (\<open>s.fundingWallets.push(x)\<close>).\<close>

definition assignPhase :: "Heap \<Rightarrow> ref \<Rightarrow> Phase \<Rightarrow> Heap" where
  "assignPhase h r v =
     (case objects h r of
        None \<Rightarrow> h
      | Some obj \<Rightarrow> h\<lparr>objects := (objects h)(r := Some (obj\<lparr>o_phase := v\<rparr>))\<rparr>)"

definition assignFundingWallets :: "Heap \<Rightarrow> ref \<Rightarrow> ref \<Rightarrow> Heap" where
  "assignFundingWallets h r a =
     (case objects h r of
        None \<Rightarrow> h
      | Some obj \<Rightarrow> h\<lparr>objects := (objects h)(r := Some (obj\<lparr>o_fundingWallets := a\<rparr>))\<rparr>)"

definition arrayPush :: "Heap \<Rightarrow> ref \<Rightarrow> Wallet \<Rightarrow> Heap" where
  "arrayPush h a x =
     (case arrays h a of
        None \<Rightarrow> h
      | Some xs \<Rightarrow> h\<lparr>arrays := (arrays h)(a := Some (xs @ [x]))\<rparr>)"

text \<open>\<open>s.fundingWallets.push(x)\<close> through a state object.\<close>

definition pushFundingWallet :: "Heap \<Rightarrow> ref \<Rightarrow> Wallet \<Rightarrow> Heap" where
  "pushFundingWallet h r x =
     (case objects h r of
        None \<Rightarrow> h
      | Some obj \<Rightarrow> arrayPush h (o_fundingWallets obj) x)"

text \<open>The \<open>BotState\<close> value an object stands for, lists read through their references.\<close>

definition readState :: "Heap \<Rightarrow> ref \<Rightarrow> BotState option" where
  "readState h r =
     (case objects h r of
        None \<Rightarrow> None
      | Some obj \<Rightarrow>
          (case (arrays h (o_fundingWallets obj), arrays h (o_volumeWallets obj)) of
             (Some fw, Some vw) \<Rightarrow>
               Some \<lparr> phase = o_phase obj, tokenAddress = o_tokenAddress obj,
                      fundingWallets = fw, volumeWallets = vw,
                      totalMonDeposited = o_totalMonDeposited obj,
                      bondingCurveComplete = o_bondingCurveComplete obj,
                      volumeGenerated = o_volumeGenerated obj \<rparr>
           | _ \<Rightarrow> None))"

section \<open>Reading the trace\<close>

text \<open>The MON moved by a confirmed plain transfer; \<open>transferred\<close> sums it over a trace.\<close>

definition confirmedTransfer :: "Event \<Rightarrow> int" where
  "confirmedTransfer e =
     (case e of
        Submitted signer tx ok \<Rightarrow>
          (case tx of Transfer toAddress amount \<Rightarrow> (if ok then amount else 0) | _ \<Rightarrow> 0)
      | _ \<Rightarrow> 0)"

definition transferred :: "Event list \<Rightarrow> int" where
  "transferred es = sum_list (map confirmedTransfer es)"

text \<open>The plain transfers a trace holds, confirmed or not: signer, recipient, amount.\<close>

definition transfersSubmitted :: "Event list \<Rightarrow> (Wallet \<times> string \<times> int) list" where
  "transfersSubmitted es =
     concat (map (\<lambda>e. case e of
                         Submitted signer tx ok \<Rightarrow>
                           (case tx of Transfer toAddress amount \<Rightarrow> [(signer, toAddress, amount)]
                            | _ \<Rightarrow> [])
                       | _ \<Rightarrow> []) es)"

definition timerIntervals :: "Event list \<Rightarrow> int list" where
  "timerIntervals es = concat (map (\<lambda>e. case e of TimerSet d \<Rightarrow> [d] | _ \<Rightarrow> []) es)"

definition pollTimes :: "Event list \<Rightarrow> nat list" where
  "pollTimes es = concat (map (\<lambda>e. case e of StatusPolled t \<Rightarrow> [t] | _ \<Rightarrow> []) es)"

text \<open>The events a run added to the trace it started from.\<close>

definition newEvents :: "World \<Rightarrow> World \<Rightarrow> Event list" where
  "newEvents w w' = drop (length (trace w)) (trace w')"

text \<open>A derivation path split at \<open>/\<close>: \<open>m\<close>, purpose, coin type, account, change,
  address index (BIP44).\<close>

fun splitOn :: "char \<Rightarrow> string \<Rightarrow> string list" where
  "splitOn c [] = [[]]"
| "splitOn c (x # xs) =
     (if x = c then [] # splitOn c xs
      else (case splitOn c xs of [] \<Rightarrow> [[x]] | s # ss \<Rightarrow> (x # s) # ss))"

definition pathSegments :: "string \<Rightarrow> string list" where
  "pathSegments p = splitOn (CHR ''/'') p"

definition accountSegment :: "string \<Rightarrow> string" where
  "accountSegment p = pathSegments p ! 3"

section \<open>Concrete inputs\<close>

definition testWallet :: "string \<Rightarrow> Wallet" where
  "testWallet a = \<lparr> address = a, privateKey = ''key:'' @ a, publicKey = ''pub:'' @ a,
                    index = 0, wtype = Funding \<rparr>"

definition world0 :: World where
  "world0 = \<lparr> clock = 0, trace = [], draws = 0 \<rparr>"

definition testToken :: TokenConfig where
  "testToken = \<lparr> name = ''My Token'', symbol = ''MTK'',
                 description = Some ''Token created by bundler bot'', imageUrl = Some [] \<rparr>"

text \<open>A chain on which everything succeeds at once: every transaction is confirmed,
  the creation receipt carries one log, the bonding curve is never complete, every
  wallet holds 5 tokens and 1 MON, and \<open>Math.random()\<close> is always one half. As in
  ethers, a call with the empty string for the token address is rejected when it is
  encoded. The address of a derived wallet spells out the path and the password it was
  derived with.\<close>

definition envOk :: Env where
  "envOk = \<lparr> generateMnemonic = ''abandon ability able'',
     fromPhrase = (\<lambda>phrase password path.
        Inr \<lparr> hd_address = ''0x:'' @ path @ ''+'' @ password,
              hd_privateKey = ''key:'' @ path @ ''+'' @ password,
              hd_publicKey = ''pub:'' @ path @ ''+'' @ password \<rparr>),
     fsWrite = (\<lambda>p. None),
     lag = (\<lambda>w. 0),
     populateTransaction = (\<lambda>signer tx.
        case tx of
          BuyToken tok amount \<Rightarrow> if tok = [] then Some (Err ''unconfigured name'') else None
        | SellToken tok amount \<Rightarrow> if tok = [] then Some (Err ''unconfigured name'') else None
        | _ \<Rightarrow> None),
     signTransaction = (\<lambda>signer tx. Inr ''0xsigned''),
     txOutcome = (\<lambda>w signer tx.
        case tx of
          BuyToken tok amount \<Rightarrow> if tok = [] then Inl (Err ''unconfigured name'') else Inr ''0xhash''
        | SellToken tok amount \<Rightarrow> if tok = [] then Inl (Err ''unconfigured name'') else Inr ''0xhash''
        | _ \<Rightarrow> Inr ''0xhash''),
     getTransactionReceipt = (\<lambda>w h. Inr (Some \<lparr> logs = [\<lparr> log_address = ''0xT0KEN'' \<rparr>] \<rparr>)),
     curveStatus = (\<lambda>w tok. Inr \<lparr> liquidity = 0, threshold = 1, isComplete = False \<rparr>),
     tokenPrice = (\<lambda>w tok. Inr (10 ^ 18)),
     tokenBalance = (\<lambda>w tok a. Inr 5),
     monBalance = (\<lambda>w a. Inr (10 ^ 18)),
     random = (\<lambda>n. 1 / 2),
     parseRounded = (\<lambda>x. Inr \<lfloor>x * 10 ^ 18\<rfloor>) \<rparr>"

text \<open>The same chain, except that the second transaction submitted is rejected.\<close>

definition envSecondFails :: Env where
  "envSecondFails = envOk\<lparr>txOutcome :=
     (\<lambda>w signer tx. if length (trace w) = 1 then Inl (Err ''reverted'') else Inr ''0xhash'')\<rparr>"


definition threeWallets :: WalletManager where
  "threeWallets = \<lparr> wm_fundingWallets = [testWallet ''W1'', testWallet ''W2''],
                    wm_volumeWallets = [testWallet ''W3''], seedPhrase = ''abandon ability able'' \<rparr>"

text \<open>An orchestrator after phase 1 with the two funding wallets \<open>W1\<close> and \<open>W2\<close>.\<close>

definition orchTwoWallets :: Orchestrator where
  "orchTwoWallets =
     \<lparr> walletManager = threeWallets\<lparr>wm_volumeWallets := []\<rparr>,
       state = \<lparr> phase = PFunding, tokenAddress = None,
                 fundingWallets = [testWallet ''W1'', testWallet ''W2''],
                 volumeWallets = [], totalMonDeposited = 0,
                 bondingCurveComplete = False, volumeGenerated = 0 \<rparr>,
       volumeBot = None \<rparr>"

text \<open>The same orchestrator in the bonding phase with a token address in its state.\<close>

definition orchWithToken :: Orchestrator where
  "orchWithToken =
     orchTwoWallets\<lparr>state := (state orchTwoWallets)\<lparr>phase := PBonding,
                                                       tokenAddress := Some ''0xT0KEN''\<rparr>\<rparr>"

definition freshOrchestrator :: Orchestrator where
  "freshOrchestrator =
     \<lparr> walletManager = \<lparr> wm_fundingWallets = [], wm_volumeWallets = [],
                         seedPhrase = ''abandon ability able'' \<rparr>,
       state = \<lparr> phase = Idle, tokenAddress = None, fundingWallets = [],
                 volumeWallets = [], totalMonDeposited = 0,
                 bondingCurveComplete = False, volumeGenerated = 0 \<rparr>,
       volumeBot = None \<rparr>"

section \<open>Phase 2: the split of the target over the funding wallets\<close>

text \<open>
  Claim C4 (amended). With a target of 1,296,000 MON and 100 funding wallets, the first
  wallet's amount \<open>monPerWallet\<close> is 12,960 MON, and each of the remaining 99 wallets is
  given \<open>(1,296,000 - 12,960) / 99\<close> MON, which is 12,960 MON as well; in wei, the
  first buy amount is \<open>12960 * 10^18\<close> and \<open>buyAmounts\<close> is 99 copies of it.
\<close>

theorem funding_split_amounts:
  assumes "targetMon cfg = 1296000" and "length wallets = 100"
  shows "monPerWallet cfg wallets = 12960
       \<and> amountPerRemainingWallet cfg wallets = (1296000 - 12960) / 99
       \<and> amountPerRemainingWallet cfg wallets = 12960
       \<and> parseEther env (monPerWallet cfg wallets) = Inr (12960 * 10 ^ 18)
       \<and> buyAmounts env cfg wallets = Inr (replicate 99 (12960 * 10 ^ 18))"
proof (cases wallets)
  case Nil
  with assms show ?thesis by simp
next
  case (Cons first remaining)
  with assms have len: "length remaining = 99" by simp
  have per: "monPerWallet cfg wallets = 12960"
    using assms by (simp add: monPerWallet_def)
  have rest: "amountPerRemainingWallet cfg wallets = 12960"
    using assms Cons len by (simp add: amountPerRemainingWallet_def monPerWallet_def)
  have wei: "parseEther env 12960 = Inr (12960 * 10 ^ 18)"
    by (simp add: parseEther_def)
  have nonempty: "remaining \<noteq> []"
    using len by auto
  have amounts: "buyAmounts env cfg wallets = Inr (replicate 99 (12960 * 10 ^ 18))"
    using Cons len nonempty rest wei by (simp add: buyAmounts_def map_replicate_const)
  show ?thesis
    using per rest wei amounts by simp
qed

theorem funding_split_amounts_witness:
  "targetMon defaultConfig = 1296000
   \<and> length (replicate 100 (testWallet ''W'')) = 100
   \<and> monPerWallet defaultConfig (replicate 100 (testWallet ''W'')) = 12960
   \<and> amountPerRemainingWallet defaultConfig (replicate 100 (testWallet ''W'')) = 12960
   \<and> buyAmounts envOk defaultConfig (replicate 100 (testWallet ''W''))
       = Inr (replicate 99 (12960 * 10 ^ 18))"
  using funding_split_amounts [of defaultConfig "replicate 100 (testWallet ''W'')" envOk]
  by (simp add: defaultConfig_def)

text \<open>
  Claim C4 as stated gives 13,090.9... MON for each of the remaining 99 wallets. That is
  \<open>1,296,000 / 99\<close>; the quotient the code computes, \<open>(1,296,000 - 12,960) / 99\<close>, is
  exactly 12,960.
\<close>

theorem remaining_amount_is_not_13090:
  "amountPerRemainingWallet defaultConfig (replicate 100 (testWallet ''W'')) = 12960
   \<and> \<not> 13090 \<le> amountPerRemainingWallet defaultConfig (replicate 100 (testWallet ''W''))"
  by (simp add: amountPerRemainingWallet_def monPerWallet_def defaultConfig_def)

section \<open>Recovery sweep: what a run adds to the trace\<close>

lemma trace_rpc [simp]: "trace (rpc env w) = trace w"
  by (simp add: rpc_def)

lemma trace_sleep [simp]: "trace (sleep env w ms) = trace w"
  by (simp add: sleep_def)

lemma sendAndWait_trace:
  "sendAndWait env w signer tx = (w', r) \<Longrightarrow>
     trace w' = trace w @ [Submitted signer tx (isOk r)] \<and> r = txOutcome env w signer tx"
  by (auto simp: sendAndWait_def Let_def)

lemma transferred_append [simp]: "transferred (xs @ ys) = transferred xs + transferred ys"
  by (simp add: transferred_def)

lemma transferred_Nil [simp]: "transferred [] = 0"
  by (simp add: transferred_def)











lemma isOk_not_Inl: "isOk r \<Longrightarrow> r \<noteq> Inl e"
  by (auto simp: isOk_def)



lemma transfersSubmitted_append [simp]:
  "transfersSubmitted (xs @ ys) = transfersSubmitted xs @ transfersSubmitted ys"
  by (simp add: transfersSubmitted_def)

lemma transfersSubmitted_Nil [simp]: "transfersSubmitted [] = []"
  by (simp add: transfersSubmitted_def)












section \<open>Sequential submission in the bundler\<close>

lemma populateBuys_shape:
  "populateBuys env tok wallets amounts = Inr txs \<Longrightarrow>
     length wallets \<le> length amounts
     \<and> txs = map (BuyToken tok) (take (length wallets) amounts)"
proof (induction env tok wallets amounts arbitrary: txs rule: populateBuys.induct)
  case (1 env tok amounts)
  then show ?case by simp
next
  case (2 env tok wallet ws)
  then show ?case by simp
next
  case (3 env tok wallet ws a as)
  then show ?case
    by (auto split: option.splits sum.splits)
qed

lemma populateBuys_take:
  "populateBuys env tok wallets amounts = Inr txs \<Longrightarrow>
     populateBuys env tok (take k wallets) (take k amounts) = Inr (take k txs)"
proof (induction env tok wallets amounts arbitrary: txs k rule: populateBuys.induct)
  case (1 env tok amounts)
  then show ?case by simp
next
  case (2 env tok wallet ws)
  then show ?case by simp
next
  case (3 env tok wallet ws a as)
  then show ?case
    by (cases k) (auto split: option.splits sum.splits)
qed

lemma sequentialBuys_append:
  "sequentialBuys env w (xs @ ys) b =
     (case sequentialBuys env w xs b of
        (w1, Inl e) \<Rightarrow> (w1, Inl e)
      | (w1, Inr b1) \<Rightarrow> sequentialBuys env w1 ys b1)"
  by (induction env w xs b rule: sequentialBuys.induct)
     (auto split: prod.splits sum.splits)

lemma sequentialBuys_confirmed:
  "sequentialBuys env w ops b = (w', Inr b') \<Longrightarrow>
     trace w' = trace w @ map (\<lambda>(wallet, tx). Submitted wallet tx True) ops
     \<and> length (transactions b') = length (transactions b) + length ops
     \<and> length (signatures b') = length (signatures b) + length ops"
proof (induction env w ops b rule: sequentialBuys.induct)
  case (1 env w b)
  then show ?case by simp
next
  case (2 env w wallet tx rest b)
  obtain w1 r where sent: "sendAndWait env w wallet tx = (w1, r)"
    by (cases "sendAndWait env w wallet tx")
  with "2.prems" obtain h where ok: "r = Inr h"
    by (cases r) auto
  from sent have tr: "trace w1 = trace w @ [Submitted wallet tx (isOk r)]"
    by (auto simp: sendAndWait_def Let_def rpc_def)
  from "2.prems" sent ok
  have rest: "sequentialBuys env (sleep env w1 100) rest
           \<lparr> transactions = transactions b @ [h], signatures = signatures b @ [h] \<rparr>
         = (w', Inr b')"
    by simp
  from "2.IH" [OF sent [symmetric] ok rest] tr ok show ?case
    by (simp add: isOk_def sleep_def)
qed


text \<open>
  Claim C2 (amended). In sequential mode (no bundler configured), when the first \<open>k\<close>
  operations are confirmed (the run on them alone returns a bundle \<open>b\<close>, which has
  \<open>k\<close> entries) and the next one fails with \<open>e\<close>, \<open>bundleMultipleBuys\<close> throws \<open>e\<close>:
  no bundle is returned, and the error is the chain's own, with no index. It has
  submitted the first \<open>k\<close> operations once each in input order, then the failing
  one, and nothing after it.
\<close>

theorem sequential_failure_is_thrown:
  assumes seq: "bundlerRpcUrl cfg = []"
    and pop: "populateBuys env tok wallets amounts = Inr txs"
    and k: "k < length wallets"
    and confirmed:
      "bundleMultipleBuys env cfg w (take k wallets) tok (take k amounts) = (w1, Inr b)"
    and fails: "txOutcome env w1 (wallets ! k) (txs ! k) = Inl e"
  shows "\<exists>w2. bundleMultipleBuys env cfg w wallets tok amounts = (w2, Inl e)
           \<and> trace w2 = trace w
                @ map (\<lambda>(wallet, tx). Submitted wallet tx True) (take k (zip wallets txs))
                @ [Submitted (wallets ! k) (txs ! k) False]
           \<and> length (transactions b) = k"
proof -
  let ?ops = "zip wallets txs"
  from populateBuys_shape [OF pop] have len: "length txs = length wallets"
    by simp
  with k have kops: "k < length ?ops" by simp
  have nth: "?ops ! k = (wallets ! k, txs ! k)"
    using k len by simp
  have split: "?ops = take k ?ops @ (wallets ! k, txs ! k) # drop (Suc k) ?ops"
    using id_take_nth_drop [OF kops] unfolding nth .
  from confirmed seq populateBuys_take [OF pop, of k]
  have pre: "sequentialBuys env w (take k ?ops) emptyBundle = (w1, Inr b)"
    by (simp add: bundleMultipleBuys_def take_zip)
  from sequentialBuys_confirmed [OF pre] kops
  have tr1: "trace w1 = trace w
               @ map (\<lambda>(wallet, tx). Submitted wallet tx True) (take k ?ops)"
    and nb: "length (transactions b) = k"
    by (simp_all add: emptyBundle_def)
  obtain w2 r where sent: "sendAndWait env w1 (wallets ! k) (txs ! k) = (w2, r)"
    by (cases "sendAndWait env w1 (wallets ! k) (txs ! k)")
  with fails have r: "r = Inl e"
    and tr2: "trace w2 = trace w1 @ [Submitted (wallets ! k) (txs ! k) False]"
    by (auto simp: sendAndWait_def Let_def rpc_def isOk_def)
  have step: "sequentialBuys env w
                 (take k ?ops @ (wallets ! k, txs ! k) # drop (Suc k) ?ops) emptyBundle
               = (w2, Inl e)"
    by (simp only: sequentialBuys_append pre sequentialBuys.simps sent r
                   prod.case sum.case)
  have "sequentialBuys env w ?ops emptyBundle = (w2, Inl e)"
    by (subst split) (rule step)
  then have "bundleMultipleBuys env cfg w wallets tok amounts = (w2, Inl e)"
    using seq pop by (simp add: bundleMultipleBuys_def)
  with tr1 tr2 nb show ?thesis by simp
qed

theorem sequential_failure_is_thrown_witness:
  "bundlerRpcUrl defaultConfig = []
   \<and> populateBuys envSecondFails ''0xT''
        [testWallet ''W1'', testWallet ''W2'', testWallet ''W3''] [1, 2, 3]
       = Inr [BuyToken ''0xT'' 1, BuyToken ''0xT'' 2, BuyToken ''0xT'' 3]
   \<and> (\<exists>w2. bundleMultipleBuys envSecondFails defaultConfig world0
               [testWallet ''W1'', testWallet ''W2'', testWallet ''W3''] ''0xT'' [1, 2, 3]
             = (w2, Inl (Err ''reverted''))
           \<and> trace w2 = [Submitted (testWallet ''W1'') (BuyToken ''0xT'' 1) True,
                          Submitted (testWallet ''W2'') (BuyToken ''0xT'' 2) False])"
proof -
  let ?ws = "[testWallet ''W1'', testWallet ''W2'', testWallet ''W3'']"
  let ?txs = "[BuyToken ''0xT'' 1, BuyToken ''0xT'' 2, BuyToken ''0xT'' 3]"
  let ?w1 = "\<lparr> clock = 100,
               trace = [Submitted (testWallet ''W1'') (BuyToken ''0xT'' 1) True],
               draws = 0 \<rparr>"
  have seq: "bundlerRpcUrl defaultConfig = []"
    by (simp add: defaultConfig_def)
  have pop: "populateBuys envSecondFails ''0xT'' ?ws [1, 2, 3] = Inr ?txs"
    by code_simp
  have k: "(1::nat) < length ?ws"
    by simp
  have confirmed: "bundleMultipleBuys envSecondFails defaultConfig world0 (take 1 ?ws) ''0xT''
                     (take 1 [1, 2, 3])
                   = (?w1, Inr \<lparr> transactions = [''0xhash''], signatures = [''0xhash''] \<rparr>)"
    by code_simp
  have fails: "txOutcome envSecondFails ?w1 (?ws ! 1) (?txs ! 1) = Inl (Err ''reverted'')"
    by code_simp
  from sequential_failure_is_thrown [OF seq pop k confirmed fails] seq pop
  show ?thesis by (simp add: world0_def)
qed

text \<open>
  Claim C2 as stated has the bundler return a bundle with the \<open>k - 1\<close> confirmed
  entries and the failed index. With three operations of which the second is
  rejected, \<open>bundleMultipleBuys\<close> returns no bundle: it throws the chain's error, and
  the hash of the confirmed first operation is lost with the local array.
\<close>

theorem second_failure_returns_no_bundle:
  "bundleMultipleBuys envSecondFails defaultConfig world0
     [testWallet ''W1'', testWallet ''W2'', testWallet ''W3''] ''0xT'' [1, 2, 3]
   = (\<lparr> clock = 100,
        trace = [Submitted (testWallet ''W1'') (BuyToken ''0xT'' 1) True,
                 Submitted (testWallet ''W2'') (BuyToken ''0xT'' 2) False],
        draws = 0 \<rparr>,
      Inl (Err ''reverted''))"
  by code_simp

section \<open>Phase 2: the token address\<close>

lemma fold_keeps_found: "fold (\<lambda>log found. found) ls acc = acc"
  by (induction ls) simp_all

lemma extractTokenAddress_is_null: "extractTokenAddress receipt = None"
  by (cases receipt) (simp_all add: extractTokenAddress_def fold_keeps_found)

lemma phase2_token_address_is_empty:
  assumes "phase2_FundBondingCurve env cfg w orch tokenConfig = (w', orch', Inr ())"
  shows "tokenAddress (state orch') = Some []"
  using assms
  by (auto simp: phase2_FundBondingCurve_def Let_def
           split: list.splits sum.splits prod.splits)

lemma phase3_needs_token_address:
  "tokenAddress (state orch) = Some [] \<Longrightarrow>
     phase3_WaitForBondingCurve env w orch = (w, orch, Inl (Err ''Token address not set''))"
  by (simp add: phase3_WaitForBondingCurve_def)

lemma execute_never_completes:
  "snd (snd (execute env cfg w orch tokenConfig)) \<noteq> Inr ()"
proof -
  obtain orch1 r1 where p1: "phase1_GenerateFundingWallets env cfg orch = (orch1, r1)"
    by (cases "phase1_GenerateFundingWallets env cfg orch")
  obtain w2 orch2 r2 where p2:
    "phase2_FundBondingCurve env cfg w orch1 tokenConfig = (w2, orch2, r2)"
    by (cases "phase2_FundBondingCurve env cfg w orch1 tokenConfig")
  show ?thesis
  proof (cases r1)
    case (Inl e)
    with p1 show ?thesis by (simp add: execute_def)
  next
    case ok1: (Inr u)
    show ?thesis
    proof (cases r2)
      case (Inl e)
      with p1 ok1 p2 show ?thesis by (simp add: execute_def)
    next
      case (Inr u2)
      with p2 have "tokenAddress (state orch2) = Some []"
        by (auto dest: phase2_token_address_is_empty)
      from phase3_needs_token_address [OF this] p1 ok1 p2 Inr show ?thesis
        by (simp add: execute_def)
    qed
  qed
qed

text \<open>
  Claim C1, at concrete runs of phase 2 in sequential mode on a chain that confirms
  every transaction and whose creation receipt carries a log with the new token's
  address. The creation by \<open>W1\<close> is confirmed; \<open>bundleTokenCreationAndBuy\<close> then returns
  normally with an empty bundle: the paired first buy is skipped without any error and
  the address in the receipt is never read. With the two funding wallets \<open>W1\<close>, \<open>W2\<close>,
  phase 2 stores the empty string as the token address and builds \<open>W2\<close>'s buy against
  it, which the encoder rejects. With \<open>W1\<close> alone there is no further buy to build:
  phase 2 returns normally, the token address empty, 1,296,000 MON recorded as
  deposited and the creation the only transaction submitted.
\<close>

theorem phase2_never_resolves_token_address:
  "bundleTokenCreationAndBuy envOk defaultConfig world0 (testWallet ''W1'') testToken
      (648000 * 10 ^ 18)
     = (\<lparr> clock = 0,
          trace = [Submitted (testWallet ''W1'')
                     (CreateToken ''My Token'' ''MTK'' ''Token created by bundler bot'' [])
                     True],
          draws = 0 \<rparr>,
        Inr \<lparr> transactions = [], signatures = [] \<rparr>)
   \<and> getTransactionReceipt envOk world0 ''0xhash''
       = Inr (Some \<lparr> logs = [\<lparr> log_address = ''0xT0KEN'' \<rparr>] \<rparr>)
   \<and> (case phase2_FundBondingCurve envOk defaultConfig world0 orchTwoWallets testToken of
        (w', orch', r) \<Rightarrow>
          trace w' =
            [Submitted (testWallet ''W1'')
               (CreateToken ''My Token'' ''MTK'' ''Token created by bundler bot'' []) True]
          \<and> tokenAddress (state orch') = Some []
          \<and> r = Inl (Err ''unconfigured name''))
   \<and> (case phase2_FundBondingCurve envOk defaultConfig world0
               (orchTwoWallets\<lparr>state :=
                  (state orchTwoWallets)\<lparr>fundingWallets := [testWallet ''W1'']\<rparr>\<rparr>)
               testToken of
        (w', orch', r) \<Rightarrow>
          trace w' =
            [Submitted (testWallet ''W1'')
               (CreateToken ''My Token'' ''MTK'' ''Token created by bundler bot'' []) True]
          \<and> tokenAddress (state orch') = Some []
          \<and> totalMonDeposited (state orch') = 1296000
          \<and> r = Inr ())"
  by code_simp

section \<open>Wallet derivation\<close>

lemma fundingLoop_length:
  "fundingLoop env sd is acc = Inr ws \<Longrightarrow> length ws = length acc + length is"
proof (induction "is" arbitrary: acc)
  case Nil
  then show ?case by simp
next
  case (Cons i rest)
  then show ?case
    by (auto simp: Let_def split: sum.splits option.splits)
qed

lemma saveWalletInfo_succeeds:
  "\<forall>p. fsWrite env p = None \<Longrightarrow> saveWalletInfo env wallet category = None"
  by (simp add: saveWalletInfo_def Let_def)

lemma fundingLoop_succeeds:
  assumes "\<forall>password path. isOk (fromPhrase env sd password path)"
    and "\<forall>p. fsWrite env p = None"
  shows "\<exists>ws. fundingLoop env sd is acc = Inr ws"
proof (induction "is" arbitrary: acc)
  case Nil
  show ?case by simp
next
  case (Cons i rest)
  from assms(1) obtain h where "fromPhrase env sd (fundingPath i) defaultPath = Inr h"
    by (cases "fromPhrase env sd (fundingPath i) defaultPath") (auto dest: isOk_not_Inl)
  with Cons saveWalletInfo_succeeds [OF assms(2)] show ?case
    by (simp add: Let_def)
qed

lemma generateFundingWallets_count:
  assumes "\<forall>password path. isOk (fromPhrase env (seedPhrase wm) password path)"
    and "\<forall>p. fsWrite env p = None"
  shows "\<exists>ws. generateFundingWallets env wm n = (wm\<lparr>wm_fundingWallets := ws\<rparr>, Inr ws)
              \<and> int (length ws) = max 0 n"
proof -
  from fundingLoop_succeeds [OF assms, of "[0..<nat n]" "[]"]
  obtain ws where ws: "fundingLoop env (seedPhrase wm) [0..<nat n] [] = Inr ws" ..
  from fundingLoop_length [OF ws] have "int (length ws) = max 0 n"
    by simp
  with ws show ?thesis
    by (simp add: generateFundingWallets_def)
qed

text \<open>What phase 1 does: when key derivation and persistence succeed, it derives as
  many funding wallets as \<open>walletCount\<close> says (none for a negative count), and the
  values of \<open>minWallets\<close> and \<open>maxWallets\<close> make no difference to it.\<close>

lemma phase1_count_is_walletCount:
  assumes "\<forall>password path.
             isOk (fromPhrase env (seedPhrase (walletManager orch)) password path)"
    and "\<forall>p. fsWrite env p = None"
  shows "\<exists>orch'. phase1_GenerateFundingWallets env cfg orch = (orch', Inr ())
            \<and> phase (state orch') = PFunding
            \<and> int (length (fundingWallets (state orch'))) = max 0 (walletCount cfg)
            \<and> phase1_GenerateFundingWallets env (cfg\<lparr>minWallets := lo, maxWallets := hi\<rparr>) orch
                = (orch', Inr ())"
proof -
  let ?orch1 = "orch\<lparr>state := (state orch)\<lparr>phase := PFunding\<rparr>\<rparr>"
  have "\<forall>password path.
          isOk (fromPhrase env (seedPhrase (walletManager ?orch1)) password path)"
    using assms(1) by simp
  from generateFundingWallets_count [OF this assms(2), of "walletCount cfg"]
  obtain ws where gen: "generateFundingWallets env (walletManager ?orch1) (walletCount cfg)
                          = ((walletManager ?orch1)\<lparr>wm_fundingWallets := ws\<rparr>, Inr ws)"
    and n: "int (length ws) = max 0 (walletCount cfg)"
    by blast
  show ?thesis
    using gen n
    by (simp add: phase1_GenerateFundingWallets_def Let_def)
qed

text \<open>
  Claim C8, at a failing input: \<open>FUNDING_WALLET_COUNT=5\<close> with the default bounds
  \<open>MIN_FUNDING_WALLETS=100\<close> and \<open>MAX_FUNDING_WALLETS=150\<close>. Phase 1 succeeds and
  derives 5 funding wallets, fewer than the configured minimum.
\<close>

theorem five_funding_wallets_below_minimum:
  "snd (phase1_GenerateFundingWallets envOk (defaultConfig\<lparr>walletCount := 5\<rparr>)
          freshOrchestrator) = Inr ()
   \<and> length (fundingWallets (state (fst (phase1_GenerateFundingWallets envOk
                (defaultConfig\<lparr>walletCount := 5\<rparr>) freshOrchestrator)))) = 5
   \<and> minWallets (defaultConfig\<lparr>walletCount := 5\<rparr>) = 100
   \<and> maxWallets (defaultConfig\<lparr>walletCount := 5\<rparr>) = 150"
  by code_simp

section \<open>Derivation paths of the two namespaces\<close>

text \<open>The strings the two loops build differ in the account segment.\<close>

lemma splitOn_nonempty: "\<exists>s ss. splitOn c xs = s # ss"
  by (induction xs) (auto split: list.splits)

lemma pathSegments_fundingPath:
  "take 4 (pathSegments (fundingPath i)) =
     [''m'', [CHR ''4'', CHR ''4'', CHR 0x27], [CHR ''6'', CHR ''0'', CHR 0x27],
      [CHR ''0'', CHR 0x27]]"
proof -
  obtain s ss where "splitOn (CHR ''/'') (decimal i) = s # ss"
    using splitOn_nonempty by blast
  then show ?thesis
    by (simp add: pathSegments_def fundingPath_def)
qed

lemma pathSegments_volumePath:
  "take 4 (pathSegments (volumePath i)) =
     [''m'', [CHR ''4'', CHR ''4'', CHR 0x27], [CHR ''6'', CHR ''0'', CHR 0x27],
      [CHR ''1'', CHR 0x27]]"
proof -
  obtain s ss where "splitOn (CHR ''/'') (decimal i) = s # ss"
    using splitOn_nonempty by blast
  then show ?thesis
    by (simp add: pathSegments_def volumePath_def)
qed

lemma accountSegment_fundingPath: "accountSegment (fundingPath i) = [CHR ''0'', CHR 0x27]"
proof -
  have "accountSegment (fundingPath i) = take 4 (pathSegments (fundingPath i)) ! 3"
    by (simp add: accountSegment_def)
  then show ?thesis by (simp add: pathSegments_fundingPath)
qed

lemma accountSegment_volumePath: "accountSegment (volumePath i) = [CHR ''1'', CHR 0x27]"
proof -
  have "accountSegment (volumePath i) = take 4 (pathSegments (volumePath i)) ! 3"
    by (simp add: accountSegment_def)
  then show ?thesis by (simp add: pathSegments_volumePath)
qed

lemma fundingPath_neq_volumePath: "fundingPath i \<noteq> volumePath j"
  by (simp add: fundingPath_def volumePath_def)

lemma accountSegment_defaultPath: "accountSegment defaultPath = [CHR ''0'', CHR 0x27]"
  by (simp add: accountSegment_def pathSegments_def defaultPath_def)

text \<open>Neither loop ever derives at a path of its own: replacing the derivation at every
  path other than the default one changes nothing.\<close>

lemma saveWalletInfo_same_fs:
  assumes "fsWrite env' = fsWrite env"
  shows "saveWalletInfo env' wallet category = saveWalletInfo env wallet category"
  unfolding saveWalletInfo_def assms ..

lemma fundingLoop_derives_at_defaultPath:
  assumes derive: "\<forall>phrase password. fromPhrase env' phrase password defaultPath
                               = fromPhrase env phrase password defaultPath"
    and fs: "fsWrite env' = fsWrite env"
  shows "fundingLoop env' sd is acc = fundingLoop env sd is acc"
proof (induction "is" arbitrary: acc)
  case Nil
  show ?case by simp
next
  case (Cons i rest)
  have same: "fromPhrase env' sd (fundingPath i) defaultPath
                = fromPhrase env sd (fundingPath i) defaultPath"
    using derive by simp
  show ?case
    unfolding fundingLoop.simps same saveWalletInfo_same_fs [OF fs] Cons.IH ..
qed

lemma volumeLoop_derives_at_defaultPath:
  assumes derive: "\<forall>phrase password. fromPhrase env' phrase password defaultPath
                               = fromPhrase env phrase password defaultPath"
    and fs: "fsWrite env' = fsWrite env"
  shows "volumeLoop env' sd base is acc = volumeLoop env sd base is acc"
proof (induction "is" arbitrary: acc)
  case Nil
  show ?case by simp
next
  case (Cons i rest)
  have same: "fromPhrase env' sd (volumePath i) defaultPath
                = fromPhrase env sd (volumePath i) defaultPath"
    using derive by simp
  show ?case
    unfolding volumeLoop.simps same saveWalletInfo_same_fs [OF fs] Cons.IH ..
qed

text \<open>
  Claim C6, at a failing input: one funding wallet and one volume wallet derived from
  the same seed, where the address of a derived wallet spells out the path and the
  password of its derivation. Both wallets are derived at the default path
  \<open>m/44'/60'/0'/0/0\<close>, whose account segment is \<open>0'\<close>; the strings built as their
  derivation paths, with the account segments \<open>0'\<close> and \<open>1'\<close>, reach the derivation as
  passwords.
\<close>

theorem both_namespaces_derived_at_default_path:
  "snd (generateFundingWallets envOk (walletManager freshOrchestrator) 1)
     = Inr [\<lparr> address = ''0x:m/44'/60'/0'/0/0+m/44'/60'/0'/0/0'',
              privateKey = ''key:m/44'/60'/0'/0/0+m/44'/60'/0'/0/0'',
              publicKey = ''pub:m/44'/60'/0'/0/0+m/44'/60'/0'/0/0'',
              index = 0, wtype = Funding \<rparr>]
   \<and> snd (generateVolumeWallets envOk
             (fst (generateFundingWallets envOk (walletManager freshOrchestrator) 1)) 1)
     = Inr [\<lparr> address = ''0x:m/44'/60'/0'/0/0+m/44'/60'/1'/0/0'',
              privateKey = ''key:m/44'/60'/0'/0/0+m/44'/60'/1'/0/0'',
              publicKey = ''pub:m/44'/60'/0'/0/0+m/44'/60'/1'/0/0'',
              index = 1, wtype = Volume \<rparr>]
   \<and> fromPhrase envOk ''abandon ability able'' ''m/44'/60'/1'/0/0'' ''m/44'/60'/0'/0/0''
     = Inr \<lparr> hd_address = ''0x:m/44'/60'/0'/0/0+m/44'/60'/1'/0/0'',
             hd_privateKey = ''key:m/44'/60'/0'/0/0+m/44'/60'/1'/0/0'',
             hd_publicKey = ''pub:m/44'/60'/0'/0/0+m/44'/60'/1'/0/0'' \<rparr>
   \<and> accountSegment ''m/44'/60'/0'/0/0'' = [CHR ''0'', CHR 0x27]
   \<and> accountSegment (volumePath 0) = [CHR ''1'', CHR 0x27]"
  by code_simp

section \<open>Phase 3: the completion poll\<close>

lemma pollLoop_never_complete:
  "\<forall>w. \<exists>s. curveStatus env w tok = Inr s \<and> \<not> isComplete s \<Longrightarrow>
   \<exists>w' ts. pollLoop env w startTime tok st
              = (w', st, Inl (Err ''Bonding curve did not complete within timeout''))
          \<and> maxWaitTime \<le> clock w' - startTime
          \<and> trace w' = trace w @ map StatusPolled ts
          \<and> (\<forall>t \<in> set ts. clock w \<le> t \<and> t - startTime < maxWaitTime)
          \<and> sorted_wrt (\<lambda>a b. a + pollInterval \<le> b) ts"
proof (induction env w startTime tok st rule: pollLoop.induct)
  case (1 env w startTime tok st)
  show ?case
  proof (cases "clock w - startTime < maxWaitTime")
    case False
    then have "pollLoop env w startTime tok st
                 = (w, st, Inl (Err ''Bonding curve did not complete within timeout''))"
      by (simp add: pollLoop.simps)
    moreover have "trace w = trace w @ map StatusPolled []"
      by simp
    ultimately show ?thesis
      using False by (intro exI [of _ w] exI [of _ "[]"]) simp
  next
    case True
    from "1.prems" obtain s where s: "curveStatus env w tok = Inr s" "\<not> isComplete s"
      by blast
    let ?w1 = "(rpc env w)\<lparr>trace := trace w @ [StatusPolled (clock w)]\<rparr>"
    let ?w2 = "sleep env ?w1 pollInterval"
    have read: "(?w1, Inr s) = getBondingCurveStatus env w tok"
      using s by (simp add: getBondingCurveStatus_def)
    from "1.IH" [OF True read refl s(2) "1.prems"]
    obtain w' ts where run: "pollLoop env ?w2 startTime tok st
              = (w', st, Inl (Err ''Bonding curve did not complete within timeout''))"
      and late: "maxWaitTime \<le> clock w' - startTime"
      and tr: "trace w' = trace ?w2 @ map StatusPolled ts"
      and before: "\<forall>t \<in> set ts. clock ?w2 \<le> t \<and> t - startTime < maxWaitTime"
      and spaced: "sorted_wrt (\<lambda>a b. a + pollInterval \<le> b) ts"
      by blast
    have step: "pollLoop env w startTime tok st = pollLoop env ?w2 startTime tok st"
      using True read [symmetric] s(2) by (subst pollLoop.simps) simp
    have clock2: "clock w + pollInterval \<le> clock ?w2"
      by (simp add: sleep_def rpc_def)
    have tr2: "trace ?w2 = trace w @ [StatusPolled (clock w)]"
      by (simp add: sleep_def)
    have "trace w' = trace w @ map StatusPolled (clock w # ts)"
      using tr tr2 by simp
    moreover have "\<forall>t \<in> set (clock w # ts). clock w \<le> t \<and> t - startTime < maxWaitTime"
      using before clock2 True by auto
    moreover have "sorted_wrt (\<lambda>a b. a + pollInterval \<le> b) (clock w # ts)"
      using before clock2 spaced by auto
    ultimately show ?thesis
      using step run late by (intro exI [of _ w'] exI [of _ "clock w # ts"]) simp
  qed
qed


text \<open>With no lag at all the polls are exactly one interval apart: the loop entered at
  \<open>k\<close> intervals after the start polls at the intervals \<open>k, ..., 119\<close> and gives up when
  the clock shows the start plus the maximum wait.\<close>

lemma pollLoop_without_lag:
  assumes never: "\<forall>w. \<exists>s. curveStatus env w tok = Inr s \<and> \<not> isComplete s"
    and nolag: "\<forall>w. lag env w = 0"
  shows "k \<le> 120 \<Longrightarrow> clock w = startTime + k * pollInterval \<Longrightarrow>
     \<exists>w'. pollLoop env w startTime tok st
              = (w', st, Inl (Err ''Bonding curve did not complete within timeout''))
          \<and> clock w' = startTime + maxWaitTime
          \<and> trace w' = trace w
               @ map StatusPolled (map (\<lambda>i. startTime + i * pollInterval) [k..<120])"
proof (induction "120 - k" arbitrary: k w)
  case 0
  then have k: "k = 120" by simp
  with "0.prems" have past: "\<not> clock w - startTime < maxWaitTime"
    and at: "clock w = startTime + maxWaitTime"
    by (simp_all add: pollInterval_def maxWaitTime_def)
  from past have "pollLoop env w startTime tok st
                 = (w, st, Inl (Err ''Bonding curve did not complete within timeout''))"
    by (simp add: pollLoop.simps)
  with at k show ?case by simp
next
  case (Suc n)
  then have k: "k < 120" and n: "n = 120 - Suc k" by simp_all
  from k Suc.prems have before: "clock w - startTime < maxWaitTime"
    by (simp add: pollInterval_def maxWaitTime_def)
  from never obtain s where s: "curveStatus env w tok = Inr s" "\<not> isComplete s"
    by blast
  let ?w1 = "(rpc env w)\<lparr>trace := trace w @ [StatusPolled (clock w)]\<rparr>"
  let ?w2 = "sleep env ?w1 pollInterval"
  have read: "getBondingCurveStatus env w tok = (?w1, Inr s)"
    using s by (simp add: getBondingCurveStatus_def)
  have step: "pollLoop env w startTime tok st = pollLoop env ?w2 startTime tok st"
    using before read s(2) by (subst pollLoop.simps) simp
  have clock2: "clock ?w2 = startTime + Suc k * pollInterval"
    using nolag Suc.prems(2) by (simp add: sleep_def rpc_def)
  have tr2: "trace ?w2 = trace w @ [StatusPolled (clock w)]"
    by (simp add: sleep_def)
  from k have sk: "Suc k \<le> 120" by simp
  from Suc.hyps(1) [OF n sk clock2] obtain w'
    where run: "pollLoop env ?w2 startTime tok st
              = (w', st, Inl (Err ''Bonding curve did not complete within timeout''))"
      and at: "clock w' = startTime + maxWaitTime"
      and tr: "trace w' = trace ?w2
               @ map StatusPolled (map (\<lambda>i. startTime + i * pollInterval) [Suc k..<120])"
    by blast
  have "[k..<120] = k # [Suc k..<120]"
    using k by (simp add: upt_conv_Cons)
  with tr tr2 Suc.prems(2)
  have "trace w' = trace w
               @ map StatusPolled (map (\<lambda>i. startTime + i * pollInterval) [k..<120])"
    by simp
  with step run at show ?case by simp
qed

lemma execute_rethrows_phase3:
  assumes "phase1_GenerateFundingWallets env cfg orch = (orch1, Inr ())"
    and "phase2_FundBondingCurve env cfg w orch1 tokenConfig = (w2, orch2, Inr ())"
    and "phase3_WaitForBondingCurve env w2 orch2 = (w3, orch3, Inl e)"
  shows "execute env cfg w orch tokenConfig = (w3, orch3, Inl e)"
  using assms by (simp add: execute_def)

text \<open>
  Claim C5. With a token address in the state and a bonding curve that every poll
  reports as not complete, phase 3 ends by throwing the deadline error, the state
  untouched; \<open>execute\<close> rethrows whatever phase 3 throws (\<open>execute_rethrows_phase3\<close>) and
  nothing polls again. The error is raised only when the clock shows at least the
  maximum wait of one hour since the start; every poll before it was issued less than
  an hour after the start, and consecutive polls are at least 30 seconds apart. Where
  network calls and timers take no extra time, the polls are exactly 30 seconds apart,
  there are 120 of them, and the error is raised exactly one hour after the start.
\<close>

theorem poll_loop_raises_deadline_error:
  assumes tok: "tokenAddress (state orch) = Some tok" "tok \<noteq> []"
    and never: "\<forall>w. \<exists>s. curveStatus env w tok = Inr s \<and> \<not> isComplete s"
  shows "\<exists>w' ts. phase3_WaitForBondingCurve env w orch
                = (w', orch, Inl (Err ''Bonding curve did not complete within timeout''))
          \<and> newEvents w w' = map StatusPolled ts
          \<and> (\<forall>t \<in> set ts. clock w \<le> t \<and> t - clock w < maxWaitTime)
          \<and> sorted_wrt (\<lambda>a b. a + pollInterval \<le> b) ts
          \<and> maxWaitTime \<le> clock w' - clock w
          \<and> ((\<forall>v. lag env v = 0) \<longrightarrow>
                clock w' = clock w + maxWaitTime
                \<and> ts = map (\<lambda>i. clock w + i * pollInterval) [0..<120])
          \<and> pollInterval = 30000 \<and> maxWaitTime = 3600000"
proof -
  from pollLoop_never_complete [OF never, of w "clock w" "state orch"]
  obtain w' ts where run: "pollLoop env w (clock w) tok (state orch)
              = (w', state orch, Inl (Err ''Bonding curve did not complete within timeout''))"
    and late: "maxWaitTime \<le> clock w' - clock w"
    and tr: "trace w' = trace w @ map StatusPolled ts"
    and before: "\<forall>t \<in> set ts. clock w \<le> t \<and> t - clock w < maxWaitTime"
    and spaced: "sorted_wrt (\<lambda>a b. a + pollInterval \<le> b) ts"
    by blast
  have p3: "phase3_WaitForBondingCurve env w orch
              = (w', orch, Inl (Err ''Bonding curve did not complete within timeout''))"
    using tok run by (simp add: phase3_WaitForBondingCurve_def)
  have new: "newEvents w w' = map StatusPolled ts"
    using tr by (simp add: newEvents_def)
  have exact: "clock w' = clock w + maxWaitTime
                \<and> ts = map (\<lambda>i. clock w + i * pollInterval) [0..<120]"
    if nolag: "\<forall>v. lag env v = 0"
  proof -
    from pollLoop_without_lag [OF never nolag, of 0 w "clock w" "state orch"]
    obtain w'' where run': "pollLoop env w (clock w) tok (state orch)
              = (w'', state orch, Inl (Err ''Bonding curve did not complete within timeout''))"
      and at: "clock w'' = clock w + maxWaitTime"
      and tr': "trace w'' = trace w
               @ map StatusPolled (map (\<lambda>i. clock w + i * pollInterval) [0..<120])"
      by auto
    from run run' have same: "w'' = w'" by simp
    with tr tr' have "map StatusPolled ts
        = map StatusPolled (map (\<lambda>i. clock w + i * pollInterval) [0..<120])"
      by (simp only: same_append_eq)
    moreover have "inj StatusPolled"
      by (simp add: inj_on_def)
    ultimately have "ts = map (\<lambda>i. clock w + i * pollInterval) [0..<120]"
      by (simp only: inj_map_eq_map)
    with at same show ?thesis by simp
  qed
  show ?thesis
    using p3 new before spaced late exact
    by (intro exI [of _ w'] exI [of _ ts]) (simp add: pollInterval_def maxWaitTime_def)
qed

theorem poll_loop_raises_deadline_error_witness:
  "tokenAddress (state orchWithToken) = Some ''0xT0KEN''
   \<and> (\<forall>w. \<exists>s. curveStatus envOk w ''0xT0KEN'' = Inr s \<and> \<not> isComplete s)
   \<and> (\<exists>w'. phase3_WaitForBondingCurve envOk world0 orchWithToken
               = (w', orchWithToken,
                  Inl (Err ''Bonding curve did not complete within timeout''))
            \<and> clock w' = 3600000
            \<and> length (newEvents world0 w') = 120)"
proof -
  have tok: "tokenAddress (state orchWithToken) = Some ''0xT0KEN''"
    by (simp add: orchWithToken_def)
  have nonempty: "''0xT0KEN'' \<noteq> []"
    by simp
  have never: "\<forall>w. \<exists>s. curveStatus envOk w ''0xT0KEN'' = Inr s \<and> \<not> isComplete s"
    by (simp add: envOk_def)
  have nolag: "\<forall>v. lag envOk v = 0"
    by (simp add: envOk_def)
  from poll_loop_raises_deadline_error [OF tok nonempty never, of world0] nolag
  obtain w' ts where "phase3_WaitForBondingCurve envOk world0 orchWithToken
               = (w', orchWithToken,
                  Inl (Err ''Bonding curve did not complete within timeout''))"
    and "newEvents world0 w' = map StatusPolled ts"
    and "clock w' = clock world0 + maxWaitTime"
    and "ts = map (\<lambda>i. clock world0 + i * pollInterval) [0..<120]"
    by blast
  with tok never show ?thesis
    by (simp add: world0_def maxWaitTime_def)
qed

section \<open>Volume scheduler: intervals and amounts\<close>

lemma interval_in_bounds:
  fixes r :: rat and mn mx :: int
  assumes "0 \<le> r" and "r < 1" and "mn \<le> mx"
  shows "mn \<le> \<lfloor>r * of_int (mx - mn + 1)\<rfloor> + mn" and "\<lfloor>r * of_int (mx - mn + 1)\<rfloor> + mn \<le> mx"
proof -
  let ?n = "mx - mn + 1"
  have pos: "0 < (of_int ?n :: rat)"
    using assms(3) by simp
  have "0 \<le> r * of_int ?n"
    using assms(1) pos by simp
  then have "0 \<le> \<lfloor>r * of_int ?n\<rfloor>"
    by simp
  then show "mn \<le> \<lfloor>r * of_int ?n\<rfloor> + mn"
    by simp
  have "r * of_int ?n < of_int ?n"
    using assms(2) pos by simp
  then have "\<lfloor>r * of_int ?n\<rfloor> < ?n"
    by (simp only: floor_less_iff)
  then show "\<lfloor>r * of_int ?n\<rfloor> + mn \<le> mx"
    by simp
qed

lemma amount_in_bounds:
  fixes r mn mx :: rat
  assumes "0 \<le> r" and "r < 1" and "mn \<le> mx"
  shows "mn \<le> r * (mx - mn) + mn" and "r * (mx - mn) + mn \<le> mx"
proof -
  have d: "0 \<le> mx - mn"
    using assms(3) by simp
  then have "0 \<le> r * (mx - mn)"
    using assms(1) by simp
  then show "mn \<le> r * (mx - mn) + mn"
    by simp
  have "r * (mx - mn) \<le> 1 * (mx - mn)"
    using assms(2) d by (intro mult_right_mono) simp_all
  then show "r * (mx - mn) + mn \<le> mx"
    by simp
qed

lemma timerIntervals_append [simp]:
  "timerIntervals (xs @ ys) = timerIntervals xs @ timerIntervals ys"
  by (simp add: timerIntervals_def)

lemma timerIntervals_simps [simp]:
  "timerIntervals [] = []"
  "timerIntervals [Submitted signer tx ok] = []"
  "timerIntervals [StatusPolled t] = []"
  "timerIntervals [TimerSet d] = [d]"
  by (simp_all add: timerIntervals_def)

lemma trace_mathRandom [simp]: "trace (fst (mathRandom env w)) = trace w"
  by (simp add: mathRandom_def)

lemma buyToken_timers:
  "buyToken env w wallet tok amt = (w', r) \<Longrightarrow>
     \<exists>es. trace w' = trace w @ es \<and> timerIntervals es = []"
  by (auto simp: buyToken_def Let_def split: prod.splits sum.splits dest!: sendAndWait_trace)

lemma sellToken_timers:
  "sellToken env w wallet tok amt = (w', r) \<Longrightarrow>
     \<exists>es. trace w' = trace w @ es \<and> timerIntervals es = []"
  by (auto simp: sellToken_def Let_def split: prod.splits sum.splits dest!: sendAndWait_trace)

text \<open>What one trade does: it adds no timer to the trace, leaves the bot's flags alone,
  and appends at most one order, whose amount is the amount it was called with.\<close>

lemma executeBuy_effect:
  assumes "executeBuy env w vb wallet amount = (w', vb', r)"
  shows "(\<exists>es. trace w' = trace w @ es \<and> timerIntervals es = [])
       \<and> isRunning vb' = isRunning vb \<and> tradeInterval vb' = tradeInterval vb
       \<and> (tradeHistory vb' = tradeHistory vb
           \<or> (\<exists>order. tradeHistory vb' = tradeHistory vb @ [order]
                        \<and> amountMon order = amount))"
proof (cases "parseEther env amount")
  case (Inl e)
  with assms show ?thesis
    by (auto simp: executeBuy_def)
next
  case wei: (Inr amountWei)
  show ?thesis
  proof (cases "monBalance env w (address wallet)")
    case (Inl e)
    with assms wei show ?thesis
      by (auto simp: executeBuy_def getMonBalance_def)
  next
    case bal: (Inr balance)
    show ?thesis
    proof (cases "balance < amountWei")
      case True
      with assms wei bal show ?thesis
        by (auto simp: executeBuy_def getMonBalance_def)
    next
      case False
      obtain w2 r2 where buy:
        "buyToken env (rpc env w) wallet (vb_tokenAddress vb) amountWei = (w2, r2)"
        by (cases "buyToken env (rpc env w) wallet (vb_tokenAddress vb) amountWei")
      from buyToken_timers [OF buy] obtain es
        where es: "trace w2 = trace w @ es" "timerIntervals es = []"
        by auto
      from assms wei bal False buy es show ?thesis
        by (cases r2) (auto simp: executeBuy_def getMonBalance_def Let_def)
    qed
  qed
qed

lemma executeSell_effect:
  assumes "executeSell env w vb wallet amount = (w', vb', r)"
  shows "(\<exists>es. trace w' = trace w @ es \<and> timerIntervals es = [])
       \<and> isRunning vb' = isRunning vb \<and> tradeInterval vb' = tradeInterval vb
       \<and> (tradeHistory vb' = tradeHistory vb
           \<or> (\<exists>order. tradeHistory vb' = tradeHistory vb @ [order]
                        \<and> amountMon order = amount))"
proof (cases "tokenBalance env w (vb_tokenAddress vb) (address wallet)")
  case (Inl e)
  with assms show ?thesis
    by (auto simp: executeSell_def getTokenBalance_def)
next
  case tb: (Inr tokenBal)
  show ?thesis
  proof (cases "tokenBal = 0")
    case True
    with assms tb show ?thesis
      by (auto simp: executeSell_def getTokenBalance_def)
  next
    case nonzero: False
    show ?thesis
    proof (cases "tokenPrice env (rpc env w) (vb_tokenAddress vb)")
      case (Inl e)
      with assms tb nonzero show ?thesis
        by (auto simp: executeSell_def getTokenBalance_def getTokenPrice_def)
    next
      case price: (Inr p)
      show ?thesis
      proof (cases "parseEther env amount")
        case (Inl e)
        with assms tb nonzero price show ?thesis
          by (auto simp: executeSell_def getTokenBalance_def getTokenPrice_def)
      next
        case wei: (Inr amountWei)
        show ?thesis
        proof (cases "bigintDiv (amountWei * 10 ^ 18) p")
          case (Inl e)
          with assms tb nonzero price wei show ?thesis
            by (auto simp: executeSell_def getTokenBalance_def getTokenPrice_def)
        next
          case q: (Inr tokensToSell)
          let ?qty = "if tokensToSell > tokenBal then tokenBal else tokensToSell"
          obtain w3 r3 where sale:
            "sellToken env (rpc env (rpc env w)) wallet (vb_tokenAddress vb) ?qty = (w3, r3)"
            by (cases "sellToken env (rpc env (rpc env w)) wallet (vb_tokenAddress vb) ?qty")
          from sellToken_timers [OF sale] obtain es
            where es: "trace w3 = trace w @ es" "timerIntervals es = []"
            by auto
          from assms tb nonzero price wei q sale es show ?thesis
            by (cases r3)
               (auto simp: executeSell_def getTokenBalance_def getTokenPrice_def Let_def)
        qed
      qed
    qed
  qed
qed


lemma executeRandomTrade_effect:
  assumes rnd: "\<forall>n. 0 \<le> random env n \<and> random env n < 1"
    and am: "tradeAmountMinMon cfg \<le> tradeAmountMaxMon cfg"
    and run: "executeRandomTrade env cfg w vb wallets = (w', vb')"
  shows "(\<exists>es. trace w' = trace w @ es \<and> timerIntervals es = [])
       \<and> isRunning vb' = isRunning vb \<and> tradeInterval vb' = tradeInterval vb
       \<and> (tradeHistory vb' = tradeHistory vb
           \<or> (\<exists>order. tradeHistory vb' = tradeHistory vb @ [order]
                        \<and> tradeAmountMinMon cfg \<le> amountMon order
                        \<and> amountMon order \<le> tradeAmountMaxMon cfg))"
proof -
  obtain w1 wallet where g1: "getRandomWallet env w wallets = (w1, wallet)"
    by (cases "getRandomWallet env w wallets")
  obtain w2 r where g2: "mathRandom env w1 = (w2, r)"
    by (cases "mathRandom env w1")
  obtain w3 amount where g3: "getRandomTradeAmount env cfg w2 = (w3, amount)"
    by (cases "getRandomTradeAmount env cfg w2")
  have tr: "trace w3 = trace w"
    using g1 g2 g3
    by (auto simp: getRandomWallet_def getRandomTradeAmount_def mathRandom_def Let_def)
  from g3 obtain n where "amount = random env n * (tradeAmountMaxMon cfg - tradeAmountMinMon cfg)
                                     + tradeAmountMinMon cfg"
    by (auto simp: getRandomTradeAmount_def mathRandom_def Let_def)
  with rnd am amount_in_bounds [of "random env n" "tradeAmountMinMon cfg" "tradeAmountMaxMon cfg"]
  have bounds: "tradeAmountMinMon cfg \<le> amount" "amount \<le> tradeAmountMaxMon cfg"
    by auto
  show ?thesis
  proof (cases wallet)
    case None
    with run g1 g2 g3 have "w' = w3" and "vb' = vb"
      by (simp_all add: executeRandomTrade_def Let_def)
    with tr show ?thesis by simp
  next
    case (Some wal)
    obtain w4 vb4 r4 where trade:
      "(if r > 1 / 2 then executeBuy env w3 vb wal amount
        else executeSell env w3 vb wal amount) = (w4, vb4, r4)"
      by (cases "if r > 1 / 2 then executeBuy env w3 vb wal amount
                 else executeSell env w3 vb wal amount")
    with run g1 g2 g3 Some have res: "w' = w4" "vb' = vb4"
      by (auto simp: executeRandomTrade_def Let_def split: if_splits)
    from trade
    have "(\<exists>es. trace w4 = trace w3 @ es \<and> timerIntervals es = [])
       \<and> isRunning vb4 = isRunning vb \<and> tradeInterval vb4 = tradeInterval vb
       \<and> (tradeHistory vb4 = tradeHistory vb
           \<or> (\<exists>order. tradeHistory vb4 = tradeHistory vb @ [order]
                        \<and> amountMon order = amount))"
      by (cases "r > 1 / 2") (simp_all add: executeBuy_effect executeSell_effect)
    with res tr bounds show ?thesis
      by auto
  qed
qed

lemma scheduleNextTrade_effect:
  assumes rnd: "\<forall>n. 0 \<le> random env n \<and> random env n < 1"
    and iv: "minTradeIntervalMs cfg \<le> maxTradeIntervalMs cfg"
    and run: "scheduleNextTrade env cfg w vb wallets = (w', vb')"
  shows "(\<exists>es. trace w' = trace w @ es
             \<and> (\<forall>d \<in> set (timerIntervals es).
                   minTradeIntervalMs cfg \<le> d \<and> d \<le> maxTradeIntervalMs cfg))
       \<and> tradeHistory vb' = tradeHistory vb"
proof (cases "isRunning vb")
  case False
  with run show ?thesis by (simp add: scheduleNextTrade_def)
next
  case True
  let ?d = "\<lfloor>random env (draws w) * of_int (maxTradeIntervalMs cfg - minTradeIntervalMs cfg + 1)\<rfloor>
            + minTradeIntervalMs cfg"
  from run True have "trace w' = trace w @ [TimerSet ?d]" and "tradeHistory vb' = tradeHistory vb"
    by (auto simp: scheduleNextTrade_def getRandomInterval_def mathRandom_def Let_def)
  moreover have "minTradeIntervalMs cfg \<le> ?d \<and> ?d \<le> maxTradeIntervalMs cfg"
    using rnd iv interval_in_bounds [of "random env (draws w)" "minTradeIntervalMs cfg"
                                      "maxTradeIntervalMs cfg"]
    by auto
  ultimately show ?thesis
    by (intro conjI exI [of _ "[TimerSet ?d]"]) simp_all
qed

lemma timerCallback_effect:
  assumes rnd: "\<forall>n. 0 \<le> random env n \<and> random env n < 1"
    and iv: "minTradeIntervalMs cfg \<le> maxTradeIntervalMs cfg"
    and am: "tradeAmountMinMon cfg \<le> tradeAmountMaxMon cfg"
    and run: "timerCallback env cfg w vb wallets = (w', vb')"
  shows "(\<exists>es. trace w' = trace w @ es
             \<and> (\<forall>d \<in> set (timerIntervals es).
                   minTradeIntervalMs cfg \<le> d \<and> d \<le> maxTradeIntervalMs cfg))
       \<and> (tradeHistory vb' = tradeHistory vb
           \<or> (\<exists>order. tradeHistory vb' = tradeHistory vb @ [order]
                        \<and> tradeAmountMinMon cfg \<le> amountMon order
                        \<and> amountMon order \<le> tradeAmountMaxMon cfg))"
proof -
  obtain w1 vb1 where t: "executeRandomTrade env cfg w vb wallets = (w1, vb1)"
    by (cases "executeRandomTrade env cfg w vb wallets")
  with run have s: "scheduleNextTrade env cfg w1 vb1 wallets = (w', vb')"
    by (simp add: timerCallback_def)
  from executeRandomTrade_effect [OF rnd am t] obtain es1
    where es1: "trace w1 = trace w @ es1" "timerIntervals es1 = []"
      and h1: "tradeHistory vb1 = tradeHistory vb
           \<or> (\<exists>order. tradeHistory vb1 = tradeHistory vb @ [order]
                        \<and> tradeAmountMinMon cfg \<le> amountMon order
                        \<and> amountMon order \<le> tradeAmountMaxMon cfg)"
    by auto
  from scheduleNextTrade_effect [OF rnd iv s] obtain es2
    where es2: "trace w' = trace w1 @ es2"
               "\<forall>d \<in> set (timerIntervals es2).
                   minTradeIntervalMs cfg \<le> d \<and> d \<le> maxTradeIntervalMs cfg"
      and h2: "tradeHistory vb' = tradeHistory vb1"
    by auto
  have "trace w' = trace w @ (es1 @ es2)"
    using es1 es2 by simp
  moreover have "\<forall>d \<in> set (timerIntervals (es1 @ es2)).
                   minTradeIntervalMs cfg \<le> d \<and> d \<le> maxTradeIntervalMs cfg"
    using es1 es2 by simp
  ultimately show ?thesis
    using h1 h2 by (intro conjI exI [of _ "es1 @ es2"]) simp_all
qed

lemma runTicks_effect:
  assumes rnd: "\<forall>n. 0 \<le> random env n \<and> random env n < 1"
    and iv: "minTradeIntervalMs cfg \<le> maxTradeIntervalMs cfg"
    and am: "tradeAmountMinMon cfg \<le> tradeAmountMaxMon cfg"
  shows "runTicks n env cfg w vb = (w', vb') \<Longrightarrow>
     (\<exists>es. trace w' = trace w @ es
             \<and> (\<forall>d \<in> set (timerIntervals es).
                   minTradeIntervalMs cfg \<le> d \<and> d \<le> maxTradeIntervalMs cfg))
     \<and> (\<forall>order \<in> set (tradeHistory vb').
           order \<in> set (tradeHistory vb)
           \<or> (tradeAmountMinMon cfg \<le> amountMon order
               \<and> amountMon order \<le> tradeAmountMaxMon cfg))"
proof (induction n arbitrary: w vb)
  case 0
  then show ?case by simp
next
  case (Suc n)
  show ?case
  proof (cases "tradeInterval vb")
    case None
    with Suc.prems show ?thesis by simp
  next
    case (Some timer)
    obtain interval wallets where timer: "timer = (interval, wallets)"
      by (cases timer)
    let ?w0 = "sleep env w (nat interval)"
    let ?vb0 = "vb\<lparr>tradeInterval := None\<rparr>"
    obtain w1 vb1 where cb: "timerCallback env cfg ?w0 ?vb0 wallets = (w1, vb1)"
      by (cases "timerCallback env cfg ?w0 ?vb0 wallets")
    with Suc.prems Some timer have rest: "runTicks n env cfg w1 vb1 = (w', vb')"
      by simp
    from timerCallback_effect [OF rnd iv am cb] obtain es1
      where es1: "trace w1 = trace w @ es1"
                 "\<forall>d \<in> set (timerIntervals es1).
                     minTradeIntervalMs cfg \<le> d \<and> d \<le> maxTradeIntervalMs cfg"
        and h1: "tradeHistory vb1 = tradeHistory vb
           \<or> (\<exists>order. tradeHistory vb1 = tradeHistory vb @ [order]
                        \<and> tradeAmountMinMon cfg \<le> amountMon order
                        \<and> amountMon order \<le> tradeAmountMaxMon cfg)"
      by auto
    from Suc.IH [OF rest] obtain es2
      where es2: "trace w' = trace w1 @ es2"
                 "\<forall>d \<in> set (timerIntervals es2).
                     minTradeIntervalMs cfg \<le> d \<and> d \<le> maxTradeIntervalMs cfg"
        and h2: "\<forall>order \<in> set (tradeHistory vb').
           order \<in> set (tradeHistory vb1)
           \<or> (tradeAmountMinMon cfg \<le> amountMon order
               \<and> amountMon order \<le> tradeAmountMaxMon cfg)"
      by auto
    have "trace w' = trace w @ (es1 @ es2)"
      using es1 es2 by simp
    moreover have "\<forall>d \<in> set (timerIntervals (es1 @ es2)).
                   minTradeIntervalMs cfg \<le> d \<and> d \<le> maxTradeIntervalMs cfg"
      using es1 es2 by auto
    moreover have "\<forall>order \<in> set (tradeHistory vb').
           order \<in> set (tradeHistory vb)
           \<or> (tradeAmountMinMon cfg \<le> amountMon order
               \<and> amountMon order \<le> tradeAmountMaxMon cfg)"
      using h1 h2 by auto
    ultimately show ?thesis
      by (intro conjI exI [of _ "es1 @ es2"]) simp_all
  qed
qed


text \<open>
  Claim C9. Let \<open>Math.random()\<close> return values in \<open>[0, 1)\<close> and let the configured
  bounds be ordered (\<open>min \<le> max\<close>). Start a new volume bot and let its timer fire any
  number of times: every delay it has given to \<open>setTimeout\<close> lies within
  \<open>[minTradeIntervalMs, maxTradeIntervalMs]\<close>, and every order in its trade history has
  an amount within \<open>[tradeAmountMinMon, tradeAmountMaxMon]\<close>. (Numbers are exact
  rationals here, not doubles.)
\<close>

theorem scheduler_stays_within_bounds:
  assumes rnd: "\<forall>n. 0 \<le> random env n \<and> random env n < 1"
    and iv: "minTradeIntervalMs cfg \<le> maxTradeIntervalMs cfg"
    and am: "tradeAmountMinMon cfg \<le> tradeAmountMaxMon cfg"
    and started: "vb_start env cfg w wm (newVolumeBot tok) = (w0, vb0, Inr ())"
    and ran: "runTicks n env cfg w0 vb0 = (w', vb')"
  shows "(\<forall>d \<in> set (timerIntervals (newEvents w w')).
            minTradeIntervalMs cfg \<le> d \<and> d \<le> maxTradeIntervalMs cfg)
       \<and> (\<forall>order \<in> set (tradeHistory vb').
            tradeAmountMinMon cfg \<le> amountMon order
            \<and> amountMon order \<le> tradeAmountMaxMon cfg)"
proof -
  from started obtain wallets
    where s: "scheduleNextTrade env cfg w ((newVolumeBot tok)\<lparr>isRunning := True\<rparr>) wallets
                = (w0, vb0)"
    by (auto simp: vb_start_def newVolumeBot_def Let_def split: if_splits prod.splits)
  from scheduleNextTrade_effect [OF rnd iv s] obtain es0
    where es0: "trace w0 = trace w @ es0"
               "\<forall>d \<in> set (timerIntervals es0).
                   minTradeIntervalMs cfg \<le> d \<and> d \<le> maxTradeIntervalMs cfg"
      and h0: "tradeHistory vb0 = []"
    by (auto simp: newVolumeBot_def)
  from runTicks_effect [OF rnd iv am ran] obtain es1
    where es1: "trace w' = trace w0 @ es1"
               "\<forall>d \<in> set (timerIntervals es1).
                   minTradeIntervalMs cfg \<le> d \<and> d \<le> maxTradeIntervalMs cfg"
      and h1: "\<forall>order \<in> set (tradeHistory vb').
           order \<in> set (tradeHistory vb0)
           \<or> (tradeAmountMinMon cfg \<le> amountMon order
               \<and> amountMon order \<le> tradeAmountMaxMon cfg)"
    by auto
  have "newEvents w w' = es0 @ es1"
    using es0 es1 by (simp add: newEvents_def)
  with es0 es1 h0 h1 show ?thesis
    by auto
qed

theorem scheduler_stays_within_bounds_witness:
  "minTradeIntervalMs defaultConfig \<le> maxTradeIntervalMs defaultConfig
   \<and> tradeAmountMinMon defaultConfig \<le> tradeAmountMaxMon defaultConfig
   \<and> vb_start envOk defaultConfig world0 threeWallets (newVolumeBot ''0xT0KEN'')
       = (\<lparr> clock = 0, trace = [TimerSet 17500], draws = 1 \<rparr>,
          \<lparr> vb_tokenAddress = ''0xT0KEN'', isRunning = True,
       tradeInterval = Some (17500, [testWallet ''W3'']), tradeHistory = [] \<rparr>,
          Inr ())
   \<and> runTicks 1 envOk defaultConfig
         \<lparr> clock = 0, trace = [TimerSet 17500], draws = 1 \<rparr>
         \<lparr> vb_tokenAddress = ''0xT0KEN'', isRunning = True,
       tradeInterval = Some (17500, [testWallet ''W3'']), tradeHistory = [] \<rparr>
       = (\<lparr> clock = 17500, trace = [TimerSet 17500, Submitted (testWallet ''W3'') (SellToken ''0xT0KEN'' 5) True,
                TimerSet 17500], draws = 5 \<rparr>,
          \<lparr> vb_tokenAddress = ''0xT0KEN'', isRunning = True,
       tradeInterval = Some (17500, [testWallet ''W3'']), tradeHistory = 
         [\<lparr> order_wallet = testWallet ''W3'', order_type = Sell, amountMon = 55,
            order_tokenAddress = ''0xT0KEN'', timestamp = 17500 \<rparr>] \<rparr>)
   \<and> list_all (\<lambda>d. minTradeIntervalMs defaultConfig \<le> d \<and> d \<le> maxTradeIntervalMs defaultConfig)
         (timerIntervals (newEvents world0
            \<lparr> clock = 17500, trace = [TimerSet 17500, Submitted (testWallet ''W3'') (SellToken ''0xT0KEN'' 5) True,
                TimerSet 17500], draws = 5 \<rparr>))
   \<and> list_all (\<lambda>order. tradeAmountMinMon defaultConfig \<le> amountMon order
                        \<and> amountMon order \<le> tradeAmountMaxMon defaultConfig)
         [\<lparr> order_wallet = testWallet ''W3'', order_type = Sell, amountMon = 55,
            order_tokenAddress = ''0xT0KEN'', timestamp = 17500 \<rparr>]"
proof -
  let ?w0 = "\<lparr> clock = 0, trace = [TimerSet 17500], draws = 1 \<rparr>"
  let ?vb0 = "\<lparr> vb_tokenAddress = ''0xT0KEN'', isRunning = True,
       tradeInterval = Some (17500, [testWallet ''W3'']), tradeHistory = [] \<rparr>"
  let ?w1 = "\<lparr> clock = 17500, trace = [TimerSet 17500], draws = 1 \<rparr>"
  let ?vbn = "\<lparr> vb_tokenAddress = ''0xT0KEN'', isRunning = True,
       tradeInterval = None, tradeHistory = [] \<rparr>"
  let ?w4 = "\<lparr> clock = 17500, trace = [TimerSet 17500, Submitted (testWallet ''W3'') (SellToken ''0xT0KEN'' 5) True], draws = 4 \<rparr>"
  let ?vb4 = "\<lparr> vb_tokenAddress = ''0xT0KEN'', isRunning = True,
       tradeInterval = None, tradeHistory = [\<lparr> order_wallet = testWallet ''W3'', order_type = Sell, amountMon = 55,
            order_tokenAddress = ''0xT0KEN'', timestamp = 17500 \<rparr>] \<rparr>"
  let ?w5 = "\<lparr> clock = 17500, trace = [TimerSet 17500, Submitted (testWallet ''W3'') (SellToken ''0xT0KEN'' 5) True,
                TimerSet 17500], draws = 5 \<rparr>"
  let ?vb5 = "\<lparr> vb_tokenAddress = ''0xT0KEN'', isRunning = True,
       tradeInterval = Some (17500, [testWallet ''W3'']), tradeHistory = 
         [\<lparr> order_wallet = testWallet ''W3'', order_type = Sell, amountMon = 55,
            order_tokenAddress = ''0xT0KEN'', timestamp = 17500 \<rparr>] \<rparr>"
  have rnd: "\<forall>n. 0 \<le> random envOk n \<and> random envOk n < 1"
    by (simp add: envOk_def)
  have iv: "minTradeIntervalMs defaultConfig \<le> maxTradeIntervalMs defaultConfig"
    by (simp add: defaultConfig_def)
  have am: "tradeAmountMinMon defaultConfig \<le> tradeAmountMaxMon defaultConfig"
    by (simp add: defaultConfig_def)
  have started: "vb_start envOk defaultConfig world0 threeWallets (newVolumeBot ''0xT0KEN'')
                   = (?w0, ?vb0, Inr ())"
    by code_simp
  have pick: "getRandomWallet envOk ?w1 [testWallet ''W3'']
                = (\<lparr> clock = 17500, trace = [TimerSet 17500], draws = 2 \<rparr>, Some (testWallet ''W3''))"
    by (simp add: getRandomWallet_def mathRandom_def envOk_def Let_def)
  have side: "mathRandom envOk \<lparr> clock = 17500, trace = [TimerSet 17500], draws = 2 \<rparr>
                = (\<lparr> clock = 17500, trace = [TimerSet 17500], draws = 3 \<rparr>, 1 / 2)"
    by (simp add: mathRandom_def envOk_def)
  have amount: "getRandomTradeAmount envOk defaultConfig \<lparr> clock = 17500, trace = [TimerSet 17500], draws = 3 \<rparr>
                = (\<lparr> clock = 17500, trace = [TimerSet 17500], draws = 4 \<rparr>, 55)"
    by (simp add: getRandomTradeAmount_def mathRandom_def envOk_def defaultConfig_def Let_def)
  have sale: "executeSell envOk \<lparr> clock = 17500, trace = [TimerSet 17500], draws = 4 \<rparr> ?vbn (testWallet ''W3'') 55
                = (?w4, ?vb4, Inr ())"
    by (simp add: executeSell_def getTokenBalance_def getTokenPrice_def rpc_def parseEther_def
          bigintDiv_def sellToken_def sendAndWait_def isOk_def envOk_def Let_def)
  have trade: "executeRandomTrade envOk defaultConfig ?w1 ?vbn [testWallet ''W3'']
                = (?w4, ?vb4)"
    by (simp add: executeRandomTrade_def pick side amount sale del: One_nat_def)
  have next_timer: "scheduleNextTrade envOk defaultConfig ?w4 ?vb4 [testWallet ''W3'']
                = (?w5, ?vb5)"
    by (simp add: scheduleNextTrade_def getRandomInterval_def mathRandom_def envOk_def
          defaultConfig_def Let_def floor_eq_iff)
  have callback: "timerCallback envOk defaultConfig ?w1 ?vbn [testWallet ''W3''] = (?w5, ?vb5)"
    by (simp add: timerCallback_def trade next_timer del: One_nat_def)
  have fires: "sleep envOk ?w0 17500 = ?w1"
    by (simp add: sleep_def envOk_def)
  have "runTicks (Suc 0) envOk defaultConfig ?w0 ?vb0 = (?w5, ?vb5)"
    by (simp add: fires callback del: One_nat_def)
  then have ran: "runTicks 1 envOk defaultConfig ?w0 ?vb0 = (?w5, ?vb5)"
    by (simp only: One_nat_def)
  note bounds = scheduler_stays_within_bounds [OF rnd iv am started ran]
  from bounds [THEN conjunct1]
  have intervals: "list_all (\<lambda>d. minTradeIntervalMs defaultConfig \<le> d
                                \<and> d \<le> maxTradeIntervalMs defaultConfig)
          (timerIntervals (newEvents world0 ?w5))"
    by (simp only: list_all_iff)
  from bounds [THEN conjunct2]
  have amounts: "list_all (\<lambda>order. tradeAmountMinMon defaultConfig \<le> amountMon order
                        \<and> amountMon order \<le> tradeAmountMaxMon defaultConfig)
          (tradeHistory ?vb5)"
    by (simp only: list_all_iff)
  from iv am started ran intervals amounts show ?thesis
    by simp
qed

section \<open>The state snapshot returned by \<open>getState\<close>\<close>

text \<open>\<open>getState\<close> allocates a new object holding the same property values as
  \<open>this.state\<close>: the scalars, and the two references to the wallet arrays.\<close>

lemma getState_copies_properties:
  assumes "objects h thisState = Some obj"
  shows "heap_getState h thisState
           = Some (h\<lparr>objects := (objects h)(nextRef h := Some obj),
                     nextRef := nextRef h + 1\<rparr>, nextRef h)"
  using assms by (simp add: heap_getState_def allocObject_def)

text \<open>Assigning a property of the snapshot does not reach the internal state: the
  snapshot is another object.\<close>

lemma assignPhase_on_snapshot_keeps_state:
  assumes get: "heap_getState h thisState = Some (h1, snapshot)"
    and allocated: "thisState < nextRef h"
  shows "readState (assignPhase h1 snapshot v) thisState = readState h thisState"
proof (cases "objects h thisState")
  case None
  with get show ?thesis
    by (simp add: heap_getState_def)
next
  case (Some obj)
  from get [unfolded getState_copies_properties [OF Some]]
  have h1: "h1 = h\<lparr>objects := (objects h)(nextRef h := Some obj), nextRef := nextRef h + 1\<rparr>"
    and snap: "snapshot = nextRef h"
    by auto
  from allocated have neq: "thisState \<noteq> nextRef h"
    by simp
  show ?thesis
    using Some neq by (simp add: h1 snap assignPhase_def readState_def)
qed

lemma assignFundingWallets_on_snapshot_keeps_state:
  assumes get: "heap_getState h thisState = Some (h1, snapshot)"
    and allocated: "thisState < nextRef h"
  shows "readState (assignFundingWallets h1 snapshot a) thisState = readState h thisState"
proof (cases "objects h thisState")
  case None
  with get show ?thesis
    by (simp add: heap_getState_def)
next
  case (Some obj)
  from get [unfolded getState_copies_properties [OF Some]]
  have h1: "h1 = h\<lparr>objects := (objects h)(nextRef h := Some obj), nextRef := nextRef h + 1\<rparr>"
    and snap: "snapshot = nextRef h"
    by auto
  from allocated have neq: "thisState \<noteq> nextRef h"
    by simp
  show ?thesis
    using Some neq by (simp add: h1 snap assignFundingWallets_def readState_def)
qed

text \<open>Pushing onto the snapshot's \<open>fundingWallets\<close> does reach it: both objects hold
  the same array.\<close>

lemma push_on_snapshot_reaches_state:
  assumes obj: "objects h thisState = Some obj"
    and fw: "arrays h (o_fundingWallets obj) = Some fw"
    and vw: "arrays h (o_volumeWallets obj) = Some vw"
    and get: "heap_getState h thisState = Some (h1, snapshot)"
  shows "map_option fundingWallets (readState (pushFundingWallet h1 snapshot x) thisState)
           = Some (fw @ [x])"
proof -
  from get [unfolded getState_copies_properties [OF obj]]
  have h1: "h1 = h\<lparr>objects := (objects h)(nextRef h := Some obj), nextRef := nextRef h + 1\<rparr>"
    and snap: "snapshot = nextRef h"
    by auto
  have pushed: "pushFundingWallet h1 snapshot x
                  = h1\<lparr>arrays := (arrays h)(o_fundingWallets obj := Some (fw @ [x]))\<rparr>"
    using fw by (simp add: h1 snap pushFundingWallet_def arrayPush_def)
  show ?thesis
    unfolding pushed using obj vw by (auto simp add: h1 readState_def)
qed

text \<open>
  Claim C7, at a failing input: a newly constructed orchestrator state, a call of
  \<open>getState\<close>, and \<open>push\<close> of a wallet onto the \<open>fundingWallets\<close> of the value returned.
  The value returned is a new object, and assigning its \<open>phase\<close> leaves the internal
  state as it was; but the internal state's \<open>fundingWallets\<close>, empty before the push,
  holds the pushed wallet after it.
\<close>

theorem push_on_snapshot_changes_internal_state:
  "(case heap_newState emptyHeap of
      (h0, thisState) \<Rightarrow>
        (case heap_getState h0 thisState of
           None \<Rightarrow> False
         | Some (h1, snapshot) \<Rightarrow>
             snapshot \<noteq> thisState
             \<and> map_option phase (readState (assignPhase h1 snapshot PCompleted) thisState)
                 = Some Idle
             \<and> map_option fundingWallets (readState h1 thisState) = Some []
             \<and> map_option fundingWallets
                  (readState (pushFundingWallet h1 snapshot (testWallet ''W9'')) thisState)
                 = Some [testWallet ''W9'']))"
  by code_simp

end
